theory Spec2Isabelle
  imports Main
begin

section \<open>Data model (package models)\<close>

text \<open>
  The Go types \<^verbatim>\<open>Role\<close> and \<^verbatim>\<open>PlayerType\<close> are string types with a fixed set of named
  constants; roles are written only by \<^verbatim>\<open>assignRoles\<close>, from these constants. The three
  phase names are string constants too, and \<^verbatim>\<open>GameState.Phase\<close> is only ever assigned one
  of them. Action kinds arrive from clients as arbitrary strings, so they stay strings.
  The \<^verbatim>\<open>Personality\<close> of a player only steers the synthetic players' choices and is
  left out.
\<close>

datatype role = Werewolf | Seer | Witch | Villager | Hunter | Guard | Cupid | Thief | WhiteWolf

datatype player_type = HumanPlayer | AIPlayer

datatype phase = PhaseNight | PhaseDay | PhaseVote

record Player =
  ID :: string
  Name :: string
  PType :: player_type
  Role :: role
  Alive :: bool
  IsLover :: bool

record GameAction =
  AType :: string
  PlayerID :: string
  TargetID :: string
  Timestamp :: int
  ARoomID :: string
  Content :: string

record SkillStatus =
  Used :: bool
  Target :: string

record WitchSkills =
  SavePotion :: SkillStatus
  PoisonPotion :: SkillStatus

text \<open>
  \<^verbatim>\<open>GameState\<close>: the fields the game logic reads and writes. \<^verbatim>\<open>Round\<close> and \<^verbatim>\<open>TimeLeft\<close>
  are Go \<^verbatim>\<open>int\<close> (64 bit); the only arithmetic on them is \<^verbatim>\<open>Round++\<close>, whose wrap-around
  is written out in \<open>int64\<close> below. The mutexes, the room copy and the room manager
  back pointer carry no game logic and are left out.
\<close>

record GameState =
  Players :: "Player list"
  Phase :: phase
  Round :: int
  Actions :: "GameAction list"
  TimeLeft :: int
  IsStarted :: bool
  Skills :: "string \<rightharpoonup> WitchSkills"

text \<open>
  \<^verbatim>\<open>StateMachine\<close> holds a pointer to the game state and the outcome string. The
  controller's \<^verbatim>\<open>game\<close> and its state machine's \<^verbatim>\<open>game\<close> are the same pointer
  (\<^verbatim>\<open>NewGameController\<close>), so one record stands for both.
\<close>

record StateMachine =
  game :: GameState
  status :: string

definition GameOngoing :: string where "GameOngoing = ''ongoing''"
definition WerewolfWin :: string where "WerewolfWin = ''werewolf_win''"
definition VillagerWin :: string where "VillagerWin = ''villager_win''"
definition LoversWin :: string where "LoversWin = ''lovers_win''"
definition WhiteWolfWin :: string where "WhiteWolfWin = ''white_wolf_win''"

section \<open>Errors\<close>

text \<open>
  Every \<^verbatim>\<open>errors.New\<close> of the modelled functions is one constructor. \<open>Error\<close> gives the
  message of each, as the UTF-8 bytes of the Chinese text in the source: the controller
  compares \<^verbatim>\<open>err.Error()\<close> with the outcome constants.
\<close>

datatype error =
    ErrGameNotStarted
  | ErrPhaseIncomplete
  | ErrInvalidActionMsg
  | ErrInvalidTarget
  | ErrLoversWin
  | ErrWhiteWolfWin
  | ErrVillagerWin
  | ErrWerewolfWin
  | ErrNotWitch
  | ErrNoSuchTarget
  | ErrSaveUsed
  | ErrPoisonUsed
  | ErrInvalidSkill
  | ErrInvalidAction

fun Error :: "error \<Rightarrow> string" where
  "Error ErrGameNotStarted =
     [CHR 0xE6, CHR 0xB8, CHR 0xB8, CHR 0xE6, CHR 0x88, CHR 0x8F, CHR 0xE5, CHR 0xB0,
      CHR 0x9A, CHR 0xE6, CHR 0x9C, CHR 0xAA, CHR 0xE5, CHR 0xBC, CHR 0x80, CHR 0xE5,
      CHR 0xA7, CHR 0x8B]"
| "Error ErrPhaseIncomplete =
     [CHR 0xE5, CHR 0xBD, CHR 0x93, CHR 0xE5, CHR 0x89, CHR 0x8D, CHR 0xE9, CHR 0x98,
      CHR 0xB6, CHR 0xE6, CHR 0xAE, CHR 0xB5, CHR 0xE5, CHR 0xB0, CHR 0x9A, CHR 0xE6,
      CHR 0x9C, CHR 0xAA, CHR 0xE5, CHR 0xAE, CHR 0x8C, CHR 0xE6, CHR 0x88, CHR 0x90,
      CHR 0xE6, CHR 0x89, CHR 0x80, CHR 0xE6, CHR 0x9C, CHR 0x89, CHR 0xE5, CHR 0xBF,
      CHR 0x85, CHR 0xE8, CHR 0xA6, CHR 0x81, CHR 0xE5, CHR 0x8A, CHR 0xA8, CHR 0xE4,
      CHR 0xBD, CHR 0x9C]"
| "Error ErrInvalidActionMsg =
     [CHR 0xE6, CHR 0x97, CHR 0xA0, CHR 0xE6, CHR 0x95, CHR 0x88, CHR 0xE7, CHR 0x9A,
      CHR 0x84, CHR 0xE5, CHR 0x8A, CHR 0xA8, CHR 0xE4, CHR 0xBD, CHR 0x9C]"
| "Error ErrInvalidTarget =
     [CHR 0xE6, CHR 0x97, CHR 0xA0, CHR 0xE6, CHR 0x95, CHR 0x88, CHR 0xE7, CHR 0x9A,
      CHR 0x84, CHR 0xE7, CHR 0x9B, CHR 0xAE, CHR 0xE6, CHR 0xA0, CHR 0x87, CHR 0xE7,
      CHR 0x8E, CHR 0xA9, CHR 0xE5, CHR 0xAE, CHR 0xB6]"
| "Error ErrLoversWin =
     [CHR 0xE6, CHR 0x83, CHR 0x85, CHR 0xE4, CHR 0xBE, CHR 0xA3, CHR 0xE9, CHR 0x98,
      CHR 0xB5, CHR 0xE8, CHR 0x90, CHR 0xA5, CHR 0xE8, CHR 0x83, CHR 0x9C, CHR 0xE5,
      CHR 0x88, CHR 0xA9, CHR 0xEF, CHR 0xBC, CHR 0x9A, CHR 0xE5, CHR 0x8F, CHR 0xAA,
      CHR 0xE5, CHR 0x89, CHR 0xA9, CHR 0xE4, CHR 0xB8, CHR 0x8B, CHR 0xE6, CHR 0x83,
      CHR 0x85, CHR 0xE4, CHR 0xBE, CHR 0xA3, CHR 0xE5, CHR 0xAD, CHR 0x98, CHR 0xE6,
      CHR 0xB4, CHR 0xBB]"
| "Error ErrWhiteWolfWin =
     [CHR 0xE7, CHR 0x99, CHR 0xBD, CHR 0xE7, CHR 0x8B, CHR 0xBC, CHR 0xE7, CHR 0x8E,
      CHR 0x8B, CHR 0xE8, CHR 0xA7, CHR 0x89, CHR 0xE9, CHR 0x86, CHR 0x92, CHR 0xE8,
      CHR 0x83, CHR 0x9C, CHR 0xE5, CHR 0x88, CHR 0xA9, CHR 0xEF, CHR 0xBC, CHR 0x9A,
      CHR 0xE7, CHR 0x99, CHR 0xBD, CHR 0xE7, CHR 0x8B, CHR 0xBC, CHR 0xE7, CHR 0x8E,
      CHR 0x8B, CHR 0xE6, CHR 0x88, CHR 0x90, CHR 0xE4, CHR 0xB8, CHR 0xBA, CHR 0xE6,
      CHR 0x9C, CHR 0x80, CHR 0xE5, CHR 0x90, CHR 0x8E, CHR 0xE7, CHR 0x9A, CHR 0x84,
      CHR 0xE8, CHR 0x83, CHR 0x9C, CHR 0xE5, CHR 0x88, CHR 0xA9, CHR 0xE8, CHR 0x80,
      CHR 0x85]"
| "Error ErrVillagerWin =
     [CHR 0xE5, CHR 0xA5, CHR 0xBD, CHR 0xE4, CHR 0xBA, CHR 0xBA, CHR 0xE9, CHR 0x98,
      CHR 0xB5, CHR 0xE8, CHR 0x90, CHR 0xA5, CHR 0xE8, CHR 0x83, CHR 0x9C, CHR 0xE5,
      CHR 0x88, CHR 0xA9, CHR 0xEF, CHR 0xBC, CHR 0x9A, CHR 0xE6, CHR 0x89, CHR 0x80,
      CHR 0xE6, CHR 0x9C, CHR 0x89, CHR 0xE7, CHR 0x8B, CHR 0xBC, CHR 0xE4, CHR 0xBA,
      CHR 0xBA, CHR 0xE9, CHR 0x83, CHR 0xBD, CHR 0xE5, CHR 0xB7, CHR 0xB2, CHR 0xE8,
      CHR 0xA2, CHR 0xAB, CHR 0xE6, CHR 0xB8, CHR 0x85, CHR 0xE9, CHR 0x99, CHR 0xA4]"
| "Error ErrWerewolfWin =
     [CHR 0xE7, CHR 0x8B, CHR 0xBC, CHR 0xE4, CHR 0xBA, CHR 0xBA, CHR 0xE9, CHR 0x98,
      CHR 0xB5, CHR 0xE8, CHR 0x90, CHR 0xA5, CHR 0xE8, CHR 0x83, CHR 0x9C, CHR 0xE5,
      CHR 0x88, CHR 0xA9, CHR 0xEF, CHR 0xBC, CHR 0x9A, CHR 0xE7, CHR 0x8B, CHR 0xBC,
      CHR 0xE4, CHR 0xBA, CHR 0xBA, CHR 0xE6, CHR 0x95, CHR 0xB0, CHR 0xE9, CHR 0x87,
      CHR 0x8F, CHR 0xE5, CHR 0xB7, CHR 0xB2, CHR 0xE7, CHR 0xBB, CHR 0x8F, CHR 0xE8,
      CHR 0xB6, CHR 0x85, CHR 0xE8, CHR 0xBF, CHR 0x87, CHR 0xE6, CHR 0x88, CHR 0x96,
      CHR 0xE7, CHR 0xAD, CHR 0x89, CHR 0xE4, CHR 0xBA, CHR 0x8E, CHR 0xE5, CHR 0xA5,
      CHR 0xBD, CHR 0xE4, CHR 0xBA, CHR 0xBA, CHR 0xE6, CHR 0x95, CHR 0xB0, CHR 0xE9,
      CHR 0x87, CHR 0x8F]"
| "Error ErrNotWitch =
     [CHR 0xE9, CHR 0x9D, CHR 0x9E, CHR 0xE5, CHR 0xA5, CHR 0xB3, CHR 0xE5, CHR 0xB7,
      CHR 0xAB, CHR 0xE8, CHR 0xA7, CHR 0x92, CHR 0xE8, CHR 0x89, CHR 0xB2]"
| "Error ErrNoSuchTarget =
     [CHR 0xE7, CHR 0x9B, CHR 0xAE, CHR 0xE6, CHR 0xA0, CHR 0x87, CHR 0xE7, CHR 0x8E,
      CHR 0xA9, CHR 0xE5, CHR 0xAE, CHR 0xB6, CHR 0xE4, CHR 0xB8, CHR 0x8D, CHR 0xE5,
      CHR 0xAD, CHR 0x98, CHR 0xE5, CHR 0x9C, CHR 0xA8]"
| "Error ErrSaveUsed =
     [CHR 0xE6, CHR 0x95, CHR 0x91, CHR 0xE4, CHR 0xBA, CHR 0xBA, CHR 0xE6, CHR 0x8A,
      CHR 0x80, CHR 0xE8, CHR 0x83, CHR 0xBD, CHR 0xE5, CHR 0xB7, CHR 0xB2, CHR 0xE4,
      CHR 0xBD, CHR 0xBF, CHR 0xE7, CHR 0x94, CHR 0xA8]"
| "Error ErrPoisonUsed =
     [CHR 0xE6, CHR 0xAF, CHR 0x92, CHR 0xE8, CHR 0x8D, CHR 0xAF, CHR 0xE5, CHR 0xB7,
      CHR 0xB2, CHR 0xE4, CHR 0xBD, CHR 0xBF, CHR 0xE7, CHR 0x94, CHR 0xA8]"
| "Error ErrInvalidSkill =
     [CHR 0xE6, CHR 0x97, CHR 0xA0, CHR 0xE6, CHR 0x95, CHR 0x88, CHR 0xE7, CHR 0x9A,
      CHR 0x84, CHR 0xE6, CHR 0x8A, CHR 0x80, CHR 0xE8, CHR 0x83, CHR 0xBD, CHR 0xE7,
      CHR 0xB1, CHR 0xBB, CHR 0xE5, CHR 0x9E, CHR 0x8B]"
| "Error ErrInvalidAction =
     [CHR 0xE6, CHR 0x97, CHR 0xA0, CHR 0xE6, CHR 0x95, CHR 0x88, CHR 0xE7, CHR 0x9A,
      CHR 0x84, CHR 0xE6, CHR 0xB8, CHR 0xB8, CHR 0xE6, CHR 0x88, CHR 0x8F, CHR 0xE5,
      CHR 0x8A, CHR 0xA8, CHR 0xE4, CHR 0xBD, CHR 0x9C]"

section \<open>Validation and submission (game state and game manager files)\<close>

text \<open>
  \<^verbatim>\<open>isValidAction\<close>: the first roster entry with the actor's identifier is looked up; when
  there is none the zero \<^verbatim>\<open>Player\<close> is used, whose \<^verbatim>\<open>Alive\<close> is false.
\<close>

definition isValidAction :: "GameState \<Rightarrow> GameAction \<Rightarrow> bool" where
  "isValidAction g action =
     (case find (\<lambda>p. ID p = PlayerID action) (Players g) of
        None \<Rightarrow> False
      | Some player \<Rightarrow>
          if \<not> Alive player then False
          else (case Phase g of
                  PhaseNight \<Rightarrow>
                    if AType action = ''kill'' then Role player = Werewolf \<or> Role player = WhiteWolf
                    else if AType action = ''check'' then Role player = Seer
                    else if AType action = ''save'' \<or> AType action = ''poison'' then Role player = Witch
                    else if AType action = ''protect'' then Role player = Guard
                    else False
                | PhaseDay \<Rightarrow> AType action = ''discuss''
                | PhaseVote \<Rightarrow> AType action = ''vote''))"

text \<open>
  The target loop of \<^verbatim>\<open>AddAction\<close> stops at the first roster entry that has the target's
  identifier and is alive; the phase switch has no case for the day phase.
\<close>

definition targetValid :: "GameState \<Rightarrow> GameAction \<Rightarrow> bool" where
  "targetValid gs action =
     (case find (\<lambda>p. ID p = TargetID action \<and> Alive p) (Players gs) of
        None \<Rightarrow> False
      | Some player \<Rightarrow>
          (case Phase gs of
             PhaseNight \<Rightarrow>
               if AType action = ''kill''
               then Role player \<noteq> Werewolf \<and> Role player \<noteq> WhiteWolf
               else True
           | PhaseVote \<Rightarrow> True
           | PhaseDay \<Rightarrow> False))"

text \<open>\<^verbatim>\<open>AddAction\<close>; \<open>now\<close> is the value of \<^verbatim>\<open>time.Now().Unix()\<close>.\<close>

definition AddAction :: "int \<Rightarrow> GameState \<Rightarrow> GameAction \<Rightarrow> error option \<times> GameState" where
  "AddAction now gs action =
     (if \<not> IsStarted gs then (Some ErrGameNotStarted, gs)
      else if \<not> isValidAction gs action then (Some ErrInvalidActionMsg, gs)
      else if TargetID action \<noteq> [] \<and> \<not> targetValid gs action then (Some ErrInvalidTarget, gs)
      else (None, gs\<lparr>Actions := Actions gs @ [action\<lparr>Timestamp := now\<rparr>]\<rparr>))"

definition UpdateTimeLeft :: "int \<Rightarrow> GameState \<Rightarrow> GameState" where
  "UpdateTimeLeft seconds gs = gs\<lparr>TimeLeft := seconds\<rparr>"

text \<open>
  The loops of \<^verbatim>\<open>processActionResult\<close> write the alive flag of the first roster entry
  with the target's identifier and break.
\<close>

fun setAlive :: "string \<Rightarrow> bool \<Rightarrow> Player list \<Rightarrow> Player list" where
  "setAlive t b [] = []"
| "setAlive t b (p # ps) = (if ID p = t then p\<lparr>Alive := b\<rparr> # ps else p # setAlive t b ps)"

definition processActionResult :: "GameState \<Rightarrow> GameAction \<Rightarrow> GameState" where
  "processActionResult g action =
     (if AType action = ''kill''
        then g\<lparr>Players := setAlive (TargetID action) False (Players g)\<rparr>
      else if AType action = ''save'' \<or> AType action = ''poison''
        then g\<lparr>Players := setAlive (TargetID action)
                            (if AType action = ''save'' then True else False) (Players g)\<rparr>
      else if AType action = ''vote''
        then g\<lparr>Players := setAlive (TargetID action) False (Players g)\<rparr>
      else g)"

text \<open>Go's \<^verbatim>\<open>int\<close> on a 64-bit platform: two's complement wrap-around.\<close>

definition int64 :: "int \<Rightarrow> int" where
  "int64 x = (x + 2 ^ 63) mod 2 ^ 64 - 2 ^ 63"

definition checkAndUpdatePhase :: "GameState \<Rightarrow> GameState" where
  "checkAndUpdatePhase g =
     (case Phase g of
        PhaseNight \<Rightarrow> g\<lparr>Phase := PhaseDay\<rparr>
      | PhaseDay \<Rightarrow> g\<lparr>Phase := PhaseVote\<rparr>
      | PhaseVote \<Rightarrow> g\<lparr>Phase := PhaseNight, Round := int64 (Round g + 1)\<rparr>)
     \<lparr>TimeLeft := 120\<rparr>"

section \<open>Phase state machine\<close>

definition hasActionOfType :: "GameState \<Rightarrow> string \<Rightarrow> string \<Rightarrow> bool" where
  "hasActionOfType g playerID actionType =
     list_ex (\<lambda>action. PlayerID action = playerID \<and> AType action = actionType) (Actions g)"

definition checkNightActionsComplete :: "GameState \<Rightarrow> bool" where
  "checkNightActionsComplete g =
     list_all (\<lambda>player.
        if \<not> Alive player then True
        else (case Role player of
                Werewolf \<Rightarrow> hasActionOfType g (ID player) ''kill''
              | WhiteWolf \<Rightarrow> hasActionOfType g (ID player) ''kill''
              | Seer \<Rightarrow> hasActionOfType g (ID player) ''check''
              | Witch \<Rightarrow> True
              | Guard \<Rightarrow> hasActionOfType g (ID player) ''protect''
              | _ \<Rightarrow> True)) (Players g)"

definition checkVoteComplete :: "GameState \<Rightarrow> bool" where
  "checkVoteComplete g =
     (let voteCount = length (filter (\<lambda>player. Alive player \<and> hasActionOfType g (ID player) ''vote'')
                                (Players g));
          aliveCount = length (filter Alive (Players g))
      in voteCount = aliveCount)"

definition isPhaseComplete :: "GameState \<Rightarrow> bool" where
  "isPhaseComplete g =
     (case Phase g of
        PhaseNight \<Rightarrow> checkNightActionsComplete g
      | PhaseDay \<Rightarrow> TimeLeft g \<le> 0
      | PhaseVote \<Rightarrow> checkVoteComplete g)"

text \<open>
  \<^verbatim>\<open>processNightResults\<close>: two passes over the log, the first applying the kills, the
  second the witch's actions, then the log is replaced by an empty one.
\<close>

definition processNightResults :: "GameState \<Rightarrow> GameState" where
  "processNightResults g =
     (let g1 = foldl (\<lambda>s action. if AType action = ''kill'' then processActionResult s action else s)
                 g (Actions g);
          g2 = foldl (\<lambda>s action. if AType action = ''save'' \<or> AType action = ''poison''
                                 then processActionResult s action else s)
                 g1 (Actions g1)
      in g2\<lparr>Actions := []\<rparr>)"

text \<open>
  \<^verbatim>\<open>processVoteResults\<close> counts the votes in a Go map and then ranges over the map. Go does
  not fix the iteration order of a map, so the order is a parameter: \<open>order\<close> is the
  sequence in which the range loop visits the keys, and \<open>map_order\<close> says that it is an
  enumeration of the keys of the map. \<open>pickStep\<close> is the body of the range loop.
\<close>

definition tally :: "GameAction list \<Rightarrow> (string \<rightharpoonup> int)" where
  "tally acts =
     foldl (\<lambda>votes action.
              if AType action = ''vote''
              then votes(TargetID action \<mapsto>
                     (case votes (TargetID action) of None \<Rightarrow> 0 | Some c \<Rightarrow> c) + 1)
              else votes)
       Map.empty acts"

definition map_order :: "(string \<rightharpoonup> int) \<Rightarrow> string list \<Rightarrow> bool" where
  "map_order votes order \<longleftrightarrow> distinct order \<and> set order = dom votes"

definition pickStep :: "(string \<rightharpoonup> int) \<Rightarrow> int \<times> string \<Rightarrow> string \<Rightarrow> int \<times> string" where
  "pickStep votes =
     (\<lambda>(maxVotes, eliminatedID) playerID.
        case votes playerID of
          None \<Rightarrow> (maxVotes, eliminatedID)
        | Some count \<Rightarrow>
            if count > maxVotes then (count, playerID) else (maxVotes, eliminatedID))"

definition pickMax :: "(string \<rightharpoonup> int) \<Rightarrow> string list \<Rightarrow> int \<times> string" where
  "pickMax votes order = foldl (pickStep votes) (0, []) order"

definition processVoteResults :: "string list \<Rightarrow> GameState \<Rightarrow> GameState" where
  "processVoteResults order g =
     (let votes = tally (Actions g);
          eliminatedID = snd (pickMax votes order);
          g1 = (if eliminatedID \<noteq> []
                then processActionResult g
                       \<lparr>AType = ''vote'', PlayerID = [], TargetID = eliminatedID,
                        Timestamp = 0, ARoomID = [], Content = []\<rparr>
                else g)
      in g1\<lparr>Actions := []\<rparr>)"

text \<open>
  \<^verbatim>\<open>checkGameEnd\<close>: one loop over the living players fills the counters; the two lover
  faction counters of the source are never read and are left out.
\<close>

definition wolfAligned :: "Player \<Rightarrow> bool" where
  "wolfAligned p \<longleftrightarrow> Role p = Werewolf \<or> Role p = WhiteWolf"

definition werewolfCount :: "GameState \<Rightarrow> nat" where
  "werewolfCount g = length (filter (\<lambda>p. Alive p \<and> wolfAligned p) (Players g))"

definition villagerCount :: "GameState \<Rightarrow> nat" where
  "villagerCount g = length (filter (\<lambda>p. Alive p \<and> \<not> wolfAligned p) (Players g))"

definition whiteWolfCount :: "GameState \<Rightarrow> nat" where
  "whiteWolfCount g = length (filter (\<lambda>p. Alive p \<and> Role p = WhiteWolf) (Players g))"

definition loversAlive :: "GameState \<Rightarrow> nat" where
  "loversAlive g = length (filter (\<lambda>p. Alive p \<and> IsLover p) (Players g))"

definition checkGameEnd :: "StateMachine \<Rightarrow> error option \<times> StateMachine" where
  "checkGameEnd sm =
     (let g = game sm in
      if loversAlive g = 2 \<and> loversAlive g = villagerCount g + werewolfCount g
        then (Some ErrLoversWin, sm\<lparr>status := LoversWin\<rparr>)
      else if whiteWolfCount g = 1 \<and> werewolfCount g = 1 \<and> villagerCount g = 0
        then (Some ErrWhiteWolfWin, sm\<lparr>status := WhiteWolfWin\<rparr>)
      else if werewolfCount g = 0
        then (Some ErrVillagerWin, sm\<lparr>status := VillagerWin\<rparr>)
      else if werewolfCount g \<ge> villagerCount g
        then (Some ErrWerewolfWin, sm\<lparr>status := WerewolfWin\<rparr>)
      else (None, sm\<lparr>status := GameOngoing\<rparr>))"

definition TransitionPhase :: "string list \<Rightarrow> StateMachine \<Rightarrow> error option \<times> StateMachine" where
  "TransitionPhase order sm =
     (if \<not> IsStarted (game sm) then (Some ErrGameNotStarted, sm)
      else if \<not> isPhaseComplete (game sm) then (Some ErrPhaseIncomplete, sm)
      else
        let g = game sm;
            g1 = (case Phase g of
                    PhaseNight \<Rightarrow> (processNightResults g)\<lparr>Phase := PhaseDay\<rparr>
                  | PhaseDay \<Rightarrow> g\<lparr>Phase := PhaseVote\<rparr>
                  | PhaseVote \<Rightarrow>
                      (let g' = processVoteResults order g
                       in g'\<lparr>Phase := PhaseNight, Round := int64 (Round g' + 1)\<rparr>));
            g2 = g1\<lparr>TimeLeft := 120\<rparr>
        in checkGameEnd (sm\<lparr>game := g2\<rparr>))"

section \<open>Session controller\<close>

text \<open>
  \<^verbatim>\<open>endCurrentPhase\<close>. \<^verbatim>\<open>handleGameEnd\<close> stops the timer and broadcasts; it writes nothing
  of the game state. \<^verbatim>\<open>startPhaseTimer\<close> runs the synthetic players, which draw random
  numbers, and arms a timer: it is the parameter \<open>restart\<close>. Locks, timers and broadcasts
  are not part of the model.
\<close>

definition endCurrentPhase ::
  "(StateMachine \<Rightarrow> StateMachine) \<Rightarrow> string list \<Rightarrow> StateMachine \<Rightarrow> error option \<times> StateMachine" where
  "endCurrentPhase restart order gc =
     (case TransitionPhase order gc of
        (Some err, gc') \<Rightarrow>
          if Error err = VillagerWin \<or> Error err = WerewolfWin then (None, gc')
          else (Some err, gc')
      | (None, gc') \<Rightarrow> (None, restart gc'))"

definition ProcessAction ::
  "(StateMachine \<Rightarrow> StateMachine) \<Rightarrow> string list \<Rightarrow> int \<Rightarrow> StateMachine \<Rightarrow> GameAction
     \<Rightarrow> error option \<times> StateMachine" where
  "ProcessAction restart order now gc action =
     (if \<not> list_ex (\<lambda>player. ID player = TargetID action) (Players (game gc))
        then (Some ErrInvalidTarget, gc)
      else (case AddAction now (game gc) action of
              (Some err, gs) \<Rightarrow> (Some err, gc\<lparr>game := gs\<rparr>)
            | (None, gs) \<Rightarrow>
                let gc1 = gc\<lparr>game := processActionResult gs action\<rparr>
                in if isPhaseComplete (game gc1) then endCurrentPhase restart order gc1
                   else (None, gc1)))"

section \<open>Game manager\<close>

text \<open>
  \<^verbatim>\<open>GameManager.ProcessAction\<close> on the entry of the games map for the room (\<open>None\<close> when
  the room has no game). It builds a fresh state machine on the game for each call.
\<close>

definition GameManager_ProcessAction ::
  "string list \<Rightarrow> GameState option \<Rightarrow> GameAction \<Rightarrow> error option \<times> GameState option" where
  "GameManager_ProcessAction order entry action =
     (case entry of
        None \<Rightarrow> (Some ErrGameNotStarted, None)
      | Some g \<Rightarrow>
          if \<not> IsStarted g then (Some ErrGameNotStarted, Some g)
          else if \<not> isValidAction g action then (Some ErrInvalidAction, Some g)
          else
            let g1 = g\<lparr>Actions := Actions g @ [action]\<rparr> in
            (case TransitionPhase order \<lparr>game = g1, status = []\<rparr> of
               (Some err, sm) \<Rightarrow>
                 (Some err,
                  Some (if Error err = WerewolfWin \<or> Error err = VillagerWin
                        then (game sm)\<lparr>IsStarted := False\<rparr> else game sm))
             | (None, sm) \<Rightarrow>
                 let g2 = (game sm)\<lparr>Actions := Actions (game sm) @ [action]\<rparr>;
                     g3 = processActionResult g2 action
                 in (None, Some (checkAndUpdatePhase g3))))"

section \<open>Skill manager\<close>

definition findPlayer :: "GameState \<Rightarrow> string \<Rightarrow> Player option" where
  "findPlayer g playerID = find (\<lambda>p. ID p = playerID) (Players g)"

text \<open>\<^verbatim>\<open>getWitchSkills\<close> returns a pointer to a new zero-valued \<^verbatim>\<open>WitchSkills\<close> on every call.\<close>

definition getWitchSkills :: "GameState \<Rightarrow> string \<Rightarrow> WitchSkills" where
  "getWitchSkills g witchID =
     \<lparr>SavePotion = \<lparr>Used = False, Target = []\<rparr>, PoisonPotion = \<lparr>Used = False, Target = []\<rparr>\<rparr>"

text \<open>
  \<^verbatim>\<open>UseWitchSkill\<close>. The flag and the target are written to the object that
  \<^verbatim>\<open>getWitchSkills\<close> returned (\<open>skills'\<close>); nothing else refers to that object, so the
  write is not part of the result.
\<close>

definition UseWitchSkill ::
  "GameState \<Rightarrow> string \<Rightarrow> string \<Rightarrow> string \<Rightarrow> error option \<times> GameState" where
  "UseWitchSkill g witchID targetID skillType =
     (case findPlayer g witchID of
        None \<Rightarrow> (Some ErrNotWitch, g)
      | Some witch \<Rightarrow>
          if Role witch \<noteq> Witch then (Some ErrNotWitch, g)
          else (case findPlayer g targetID of
                  None \<Rightarrow> (Some ErrNoSuchTarget, g)
                | Some target \<Rightarrow>
                    let skills = getWitchSkills g witchID;
                        logged = g\<lparr>Actions := Actions g @
                                   [\<lparr>AType = skillType, PlayerID = witchID, TargetID = targetID,
                                     Timestamp = 0, ARoomID = [], Content = []\<rparr>]\<rparr>
                    in if skillType = ''save'' then
                         (if Used (SavePotion skills) then (Some ErrSaveUsed, g)
                          else let skills' = skills\<lparr>SavePotion := \<lparr>Used = True, Target = targetID\<rparr>\<rparr>
                               in (None, logged))
                       else if skillType = ''poison'' then
                         (if Used (PoisonPotion skills) then (Some ErrPoisonUsed, g)
                          else let skills' = skills\<lparr>PoisonPotion := \<lparr>Used = True, Target = targetID\<rparr>\<rparr>
                               in (None, logged))
                       else (Some ErrInvalidSkill, g)))"

section \<open>Concrete sessions and runs\<close>

definition mkPlayer :: "string \<Rightarrow> role \<Rightarrow> bool \<Rightarrow> bool \<Rightarrow> Player" where
  "mkPlayer i r a l = \<lparr>ID = i, Name = i, PType = HumanPlayer, Role = r, Alive = a, IsLover = l\<rparr>"

definition mkAction :: "string \<Rightarrow> string \<Rightarrow> string \<Rightarrow> GameAction" where
  "mkAction k p t =
     \<lparr>AType = k, PlayerID = p, TargetID = t, Timestamp = 0, ARoomID = [], Content = []\<rparr>"

definition mkGame :: "Player list \<Rightarrow> phase \<Rightarrow> int \<Rightarrow> GameAction list \<Rightarrow> GameState" where
  "mkGame ps ph r acts =
     \<lparr>Players = ps, Phase = ph, Round = r, Actions = acts, TimeLeft = 120, IsStarted = True,
      Skills = Map.empty\<rparr>"

text \<open>The number of vote actions in a log that name the target \<open>t\<close>.\<close>

definition votesFor :: "GameAction list \<Rightarrow> string \<Rightarrow> nat" where
  "votesFor acts t = length (filter (\<lambda>a. AType a = ''vote'' \<and> TargetID a = t) acts)"

text \<open>
  A vote with the counts A:3, B:2, C:2 among seven living participants, and a vote that
  ends in the tie A:2, B:2.
\<close>

definition vote_game :: GameState where
  "vote_game = mkGame
     [mkPlayer ''A'' Villager True False, mkPlayer ''B'' Werewolf True False,
      mkPlayer ''C'' Seer True False, mkPlayer ''D'' Witch True False,
      mkPlayer ''E'' Villager True False, mkPlayer ''F'' Werewolf True False,
      mkPlayer ''G'' Villager True False]
     PhaseVote 1
     [mkAction ''vote'' ''A'' ''B'', mkAction ''vote'' ''B'' ''A'', mkAction ''vote'' ''C'' ''A'',
      mkAction ''vote'' ''D'' ''C'', mkAction ''vote'' ''E'' ''B'', mkAction ''vote'' ''F'' ''A'',
      mkAction ''vote'' ''G'' ''C'']"

definition tie_game :: GameState where
  "tie_game = mkGame
     [mkPlayer ''A'' Villager True False, mkPlayer ''B'' Werewolf True False,
      mkPlayer ''C'' Seer True False, mkPlayer ''D'' Villager True False]
     PhaseVote 1
     [mkAction ''vote'' ''A'' ''B'', mkAction ''vote'' ''B'' ''A'', mkAction ''vote'' ''C'' ''A'',
      mkAction ''vote'' ''D'' ''B'']"

text \<open>
  A night with a living witch W and a living villager T, an empty log, and the ledger as
  \<^verbatim>\<open>initializeSkills\<close> leaves it at the start: both potions of W unused.
\<close>

definition unusedSkills :: WitchSkills where
  "unusedSkills =
     \<lparr>SavePotion = \<lparr>Used = False, Target = []\<rparr>, PoisonPotion = \<lparr>Used = False, Target = []\<rparr>\<rparr>"

definition witch_game :: GameState where
  "witch_game = (mkGame
     [mkPlayer ''W'' Witch True False, mkPlayer ''T'' Villager True False,
      mkPlayer ''X'' Werewolf True False]
     PhaseNight 1 [])\<lparr>Skills := [''W'' \<mapsto> unusedSkills]\<rparr>"

text \<open>
  Two complete votes among a werewolf X and the villagers P and Q. In the first X receives
  two votes, in the second P does.
\<close>

definition village_vote :: StateMachine where
  "village_vote =
     \<lparr>game = mkGame
        [mkPlayer ''X'' Werewolf True False, mkPlayer ''P'' Villager True False,
         mkPlayer ''Q'' Villager True False]
        PhaseVote 1
        [mkAction ''vote'' ''X'' ''P'', mkAction ''vote'' ''P'' ''X'', mkAction ''vote'' ''Q'' ''X''],
      status = GameOngoing\<rparr>"

definition wolf_vote :: StateMachine where
  "wolf_vote =
     \<lparr>game = mkGame
        [mkPlayer ''X'' Werewolf True False, mkPlayer ''P'' Villager True False,
         mkPlayer ''Q'' Villager True False]
        PhaseVote 1
        [mkAction ''vote'' ''X'' ''P'', mkAction ''vote'' ''P'' ''X'', mkAction ''vote'' ''Q'' ''P''],
      status = GameOngoing\<rparr>"

text \<open>
  A roster whose only survivors are two lovers, the werewolf X and the villager P.
\<close>

definition lovers_end :: StateMachine where
  "lovers_end =
     \<lparr>game = mkGame
        [mkPlayer ''X'' Werewolf True True, mkPlayer ''P'' Villager True True,
         mkPlayer ''Q'' Seer False False, mkPlayer ''R'' Werewolf False False]
        PhaseDay 3 [],
      status = GameOngoing\<rparr>"

text \<open>
  A night with two living werewolves X and Y, a living villager P and a living seer S, and
  a day with the same roster.
\<close>

definition night_game :: GameState where
  "night_game = mkGame
     [mkPlayer ''X'' Werewolf True False, mkPlayer ''Y'' WhiteWolf True False,
      mkPlayer ''P'' Villager True False, mkPlayer ''S'' Seer True False]
     PhaseNight 1 []"

definition day_game :: GameState where
  "day_game = mkGame
     [mkPlayer ''X'' Werewolf True False, mkPlayer ''Y'' WhiteWolf True False,
      mkPlayer ''P'' Villager True False, mkPlayer ''S'' Seer True False]
     PhaseDay 1 []"

text \<open>
  A vote among a werewolf X and three villagers, with an empty log and with one vote of P
  already in the log; and the same roster in a day phase whose time has run out.
\<close>

definition open_vote :: GameState where
  "open_vote = mkGame
     [mkPlayer ''X'' Werewolf True False, mkPlayer ''P'' Villager True False,
      mkPlayer ''Q'' Villager True False, mkPlayer ''R'' Villager True False]
     PhaseVote 1 []"

definition voted_once :: GameState where
  "voted_once = mkGame
     [mkPlayer ''X'' Werewolf True False, mkPlayer ''P'' Villager True False,
      mkPlayer ''Q'' Villager True False, mkPlayer ''R'' Villager True False]
     PhaseVote 1 [mkAction ''vote'' ''P'' ''X'']"

definition day_over :: GameState where
  "day_over = (mkGame
     [mkPlayer ''X'' Werewolf True False, mkPlayer ''P'' Villager True False,
      mkPlayer ''Q'' Villager True False, mkPlayer ''R'' Villager True False]
     PhaseDay 1 [])\<lparr>TimeLeft := 0\<rparr>"

text \<open>
  What a night's log says about one participant: whether some kill action names the
  identifier \<open>t\<close>, the save and poison actions that name it, in submission order, and the
  alive flag that follows for a participant \<open>p\<close>: the last save or poison on \<open>p\<close> decides
  (alive after a save, dead after a poison); without any, \<open>p\<close> is alive when it was alive
  before and no kill names it.
\<close>

definition killed :: "GameAction list \<Rightarrow> string \<Rightarrow> bool" where
  "killed acts t = list_ex (\<lambda>a. AType a = ''kill'' \<and> TargetID a = t) acts"

definition witchActs :: "GameAction list \<Rightarrow> string \<Rightarrow> GameAction list" where
  "witchActs acts t =
     filter (\<lambda>a. (AType a = ''save'' \<or> AType a = ''poison'') \<and> TargetID a = t) acts"

definition nightAlive :: "GameAction list \<Rightarrow> Player \<Rightarrow> bool" where
  "nightAlive acts p =
     (case rev (witchActs acts (ID p)) of
        [] \<Rightarrow> Alive p \<and> \<not> killed acts (ID p)
      | a # _ \<Rightarrow> AType a = ''save'')"

text \<open>
  A night in which the werewolf X kills P, the witch W saves P and poisons Q; and a night
  with an empty log in which the villager P is dead since an earlier round.
\<close>

definition witch_night :: GameState where
  "witch_night = mkGame
     [mkPlayer ''X'' Werewolf True False, mkPlayer ''P'' Villager True False,
      mkPlayer ''Q'' Villager True False, mkPlayer ''W'' Witch True False]
     PhaseNight 1
     [mkAction ''kill'' ''X'' ''P'', mkAction ''save'' ''W'' ''P'', mkAction ''poison'' ''W'' ''Q'']"

definition late_night :: GameState where
  "late_night = mkGame
     [mkPlayer ''X'' Werewolf True False, mkPlayer ''P'' Villager False False,
      mkPlayer ''Q'' Villager True False, mkPlayer ''W'' Witch True False]
     PhaseNight 2 []"

text \<open>
  Runs of a session. An event is one call that reaches the session: a phase transition
  of the state machine (with the order in which the vote tally is visited), the phase
  advance of \<^verbatim>\<open>checkAndUpdatePhase\<close>, the submission of an action, or an update of the
  remaining time. \<open>run\<close> applies a sequence of events from left to right.
\<close>

datatype event =
    EvTransition "string list"
  | EvAdvance
  | EvSubmit int GameAction
  | EvTime int

fun step :: "event \<Rightarrow> StateMachine \<Rightarrow> StateMachine" where
  "step (EvTransition order) sm = snd (TransitionPhase order sm)"
| "step EvAdvance sm = sm\<lparr>game := checkAndUpdatePhase (game sm)\<rparr>"
| "step (EvSubmit now a) sm = sm\<lparr>game := snd (AddAction now (game sm) a)\<rparr>"
| "step (EvTime seconds) sm = sm\<lparr>game := UpdateTimeLeft seconds (game sm)\<rparr>"

definition run :: "event list \<Rightarrow> StateMachine \<Rightarrow> StateMachine" where
  "run evs sm = foldl (\<lambda>s e. step e s) sm evs"

fun nextPhase :: "phase \<Rightarrow> phase" where
  "nextPhase PhaseNight = PhaseDay"
| "nextPhase PhaseDay = PhaseVote"
| "nextPhase PhaseVote = PhaseNight"

text \<open>
  What one event may do to phase and round: nothing, or move the phase to its successor
  in the cycle, with the round raised by one when the move is from vote to night and
  unchanged otherwise.
\<close>

definition cycle_step :: "GameState \<Rightarrow> GameState \<Rightarrow> bool" where
  "cycle_step g g' \<longleftrightarrow>
     (Phase g' = Phase g \<and> Round g' = Round g) \<or>
     (Phase g' = nextPhase (Phase g) \<and>
      Round g' = (if Phase g = PhaseVote then Round g + 1 else Round g))"

text \<open>
  A complete vote among a werewolf and three villagers in which P receives two votes, and
  the events that follow it: the transition to the night, the werewolf's kill, the
  transition to the day, the end of the discussion time, the transition to the vote.
\<close>

definition cycle_start :: StateMachine where
  "cycle_start =
     \<lparr>game = mkGame
        [mkPlayer ''X'' Werewolf True False, mkPlayer ''P'' Villager True False,
         mkPlayer ''Q'' Villager True False, mkPlayer ''R'' Villager True False]
        PhaseVote 1
        [mkAction ''vote'' ''X'' ''P'', mkAction ''vote'' ''P'' ''Q'', mkAction ''vote'' ''Q'' ''P'',
         mkAction ''vote'' ''R'' ''X''],
      status = GameOngoing\<rparr>"

definition cycle_events :: "event list" where
  "cycle_events =
     [EvTransition [''P'', ''Q'', ''X''], EvSubmit 5 (mkAction ''kill'' ''X'' ''Q''),
      EvTransition [], EvTime 0, EvTransition []]"

section \<open>Properties\<close>

subsection \<open>Vote resolution\<close>

lemma tally_foldl:
  "foldl (\<lambda>votes action.
              if AType action = ''vote''
              then votes(TargetID action \<mapsto>
                     (case votes (TargetID action) of None \<Rightarrow> 0 | Some c \<Rightarrow> c) + 1)
              else votes) m acts t =
   (if votesFor acts t = 0 then m t
    else Some ((case m t of None \<Rightarrow> 0 | Some c \<Rightarrow> c) + int (votesFor acts t)))"
  by (induction acts arbitrary: m) (auto simp: votesFor_def)

lemma tally_votesFor:
  "tally acts t = (if votesFor acts t = 0 then None else Some (int (votesFor acts t)))"
  unfolding tally_def by (simp add: tally_foldl)

lemma dom_tally: "dom (tally acts) = {t. 0 < votesFor acts t}"
  by (auto simp: tally_votesFor dom_def)

lemma pick_foldl:
  "foldl (pickStep votes) (m0, e0) xs = (m, e) \<Longrightarrow>
     m0 \<le> m \<and> (\<forall>k\<in>set xs. \<forall>c. votes k = Some c \<longrightarrow> c \<le> m) \<and>
     ((m, e) = (m0, e0) \<or> (e \<in> set xs \<and> votes e = Some m \<and> m0 < m))"
proof (induction xs arbitrary: m0 e0)
  case Nil
  then show ?case by simp
next
  case (Cons x xs)
  show ?case
  proof (cases "votes x")
    case None
    with Cons.prems have "foldl (pickStep votes) (m0, e0) xs = (m, e)"
      by (simp add: pickStep_def)
    from Cons.IH[OF this] None show ?thesis by auto
  next
    case (Some c)
    show ?thesis
    proof (cases "c > m0")
      case True
      with Some Cons.prems have "foldl (pickStep votes) (c, x) xs = (m, e)"
        by (simp add: pickStep_def)
      from Cons.IH[OF this] Some True show ?thesis by auto
    next
      case False
      with Some Cons.prems have "foldl (pickStep votes) (m0, e0) xs = (m, e)"
        by (simp add: pickStep_def)
      from Cons.IH[OF this] Some False show ?thesis by auto
    qed
  qed
qed

lemma pickMax_props:
  assumes "pickMax votes order = (m, e)"
  shows "0 \<le> m" and "\<And>k c. k \<in> set order \<Longrightarrow> votes k = Some c \<Longrightarrow> c \<le> m"
    and "(m, e) = (0, []) \<or> (e \<in> set order \<and> votes e = Some m \<and> 0 < m)"
  using pick_foldl[of votes 0 "[]" order m e] assms
  unfolding pickMax_def by auto

lemma Players_processVoteResults:
  "Players (processVoteResults order g) =
     (let e = snd (pickMax (tally (Actions g)) order)
      in if e \<noteq> [] then setAlive e False (Players g) else Players g)"
  by (simp add: processVoteResults_def processActionResult_def Let_def)

lemma pickMax_maximal:
  assumes ord: "map_order (tally acts) order"
  shows "\<forall>t. votesFor acts t \<le> votesFor acts (snd (pickMax (tally acts) order))"
proof -
  obtain m e where me: "pickMax (tally acts) order = (m, e)"
    by (cases "pickMax (tally acts) order")
  from ord have dom: "set order = {t. 0 < votesFor acts t}"
    by (simp add: map_order_def dom_tally)
  have ub: "int (votesFor acts t) \<le> m" for t
  proof (cases "votesFor acts t = 0")
    case True
    with pickMax_props(1)[OF me] show ?thesis by simp
  next
    case False
    then have "t \<in> set order" and "tally acts t = Some (int (votesFor acts t))"
      using dom by (simp_all add: tally_votesFor)
    then show ?thesis by (rule pickMax_props(2)[OF me])
  qed
  from pickMax_props(3)[OF me] show ?thesis
  proof
    assume "(m, e) = (0, [])"
    then have "m = 0" and "e = []" by simp_all
    with ub me show ?thesis by simp
  next
    assume "e \<in> set order \<and> tally acts e = Some m \<and> 0 < m"
    then have "tally acts e = Some m" and "0 < m" by simp_all
    then have "m = int (votesFor acts e)"
      by (auto simp: tally_votesFor split: if_splits)
    with ub me show ?thesis by simp
  qed
qed

text \<open>
  C1, as the code has it. \<^verbatim>\<open>processVoteResults\<close> empties the log and marks dead (the first
  roster entry named by) a target whose vote count is maximal, unless that identifier is
  empty; this holds for every order in which the range loop may visit the map. A target
  whose count is strictly above every other count is therefore always the one chosen
  (A for A:3, B:2, C:2). Among several targets with the maximal count the code still
  picks one, the first the map iteration meets: a tie does not spare everybody.
\<close>

theorem processVoteResults_eliminates_a_maximum:
  assumes ord: "map_order (tally (Actions g)) order"
  shows "Actions (processVoteResults order g) = [] \<and>
         (\<exists>e. (\<forall>t. votesFor (Actions g) t \<le> votesFor (Actions g) e) \<and>
              Players (processVoteResults order g) =
                (if e = [] then Players g else setAlive e False (Players g))) \<and>
         ((\<forall>t. t \<noteq> a \<longrightarrow> votesFor (Actions g) t < votesFor (Actions g) a) \<longrightarrow>
            Players (processVoteResults order g) =
              (if a = [] then Players g else setAlive a False (Players g)))"
proof -
  let ?e = "snd (pickMax (tally (Actions g)) order)"
  have mx: "\<forall>t. votesFor (Actions g) t \<le> votesFor (Actions g) ?e"
    using pickMax_maximal[OF ord] by simp
  have pl: "Players (processVoteResults order g) =
              (if ?e = [] then Players g else setAlive ?e False (Players g))"
    by (simp add: Players_processVoteResults Let_def)
  have log: "Actions (processVoteResults order g) = []"
    by (simp add: processVoteResults_def Let_def)
  have strict: "Players (processVoteResults order g) =
              (if a = [] then Players g else setAlive a False (Players g))"
    if "\<forall>t. t \<noteq> a \<longrightarrow> votesFor (Actions g) t < votesFor (Actions g) a"
  proof -
    have "?e = a"
    proof (rule ccontr)
      assume "?e \<noteq> a"
      with that have "votesFor (Actions g) ?e < votesFor (Actions g) a" by simp
      with mx show False by (simp add: not_less[symmetric])
    qed
    with pl show ?thesis by simp
  qed
  from log mx pl strict show ?thesis by blast
qed

text \<open>
  The theorem at the counts A:3, B:2, C:2 with seven living participants, the map visited
  in the order C, B, A: only A is dead afterwards.
\<close>

theorem processVoteResults_eliminates_a_maximum_witness:
  "map_order (tally (Actions vote_game)) [''C'', ''B'', ''A''] \<and>
   Actions (processVoteResults [''C'', ''B'', ''A''] vote_game) = [] \<and>
   map Alive (Players (processVoteResults [''C'', ''B'', ''A''] vote_game)) =
     [False, True, True, True, True, True, True]"
proof -
  have ord: "map_order (tally (Actions vote_game)) [''C'', ''B'', ''A'']"
    by (auto simp: map_order_def dom_tally vote_game_def mkGame_def mkAction_def votesFor_def
          split: if_splits)
  have strict: "\<forall>t. t \<noteq> ''A'' \<longrightarrow>
                  votesFor (Actions vote_game) t < votesFor (Actions vote_game) ''A''"
    by (simp add: vote_game_def mkGame_def mkAction_def votesFor_def)
  from processVoteResults_eliminates_a_maximum[OF ord, of "''A''"] strict
  have "Actions (processVoteResults [''C'', ''B'', ''A''] vote_game) = []"
    and "Players (processVoteResults [''C'', ''B'', ''A''] vote_game) =
           setAlive ''A'' False (Players vote_game)"
    by simp_all
  with ord show ?thesis by (simp add: vote_game_def mkGame_def mkPlayer_def)
qed

text \<open>
  C1 as stated fails on the tie A:2, B:2. The map has the two keys A and B, so the range
  loop visits them as A, B or as B, A: in the first case A is marked dead, in the second B.
  Somebody is eliminated either way.
\<close>

theorem vote_tie_eliminates_counterexample:
  "map_order (tally (Actions tie_game)) [''A'', ''B''] \<and>
   map_order (tally (Actions tie_game)) [''B'', ''A''] \<and>
   votesFor (Actions tie_game) ''A'' = 2 \<and> votesFor (Actions tie_game) ''B'' = 2 \<and>
   map Alive (Players tie_game) = [True, True, True, True] \<and>
   map Alive (Players (processVoteResults [''A'', ''B''] tie_game)) = [False, True, True, True] \<and>
   map Alive (Players (processVoteResults [''B'', ''A''] tie_game)) = [True, False, True, True]"
  by (auto simp: map_order_def dom_tally tie_game_def mkGame_def mkAction_def mkPlayer_def
        votesFor_def processVoteResults_def pickMax_def pickStep_def tally_def
        processActionResult_def Let_def split: if_splits)

subsection \<open>Evaluation of concrete sessions\<close>

lemmas eval_defs =
  TransitionPhase_def isPhaseComplete_def checkVoteComplete_def checkNightActionsComplete_def
  hasActionOfType_def processVoteResults_def processNightResults_def pickMax_def pickStep_def
  tally_def processActionResult_def checkGameEnd_def werewolfCount_def villagerCount_def
  whiteWolfCount_def loversAlive_def wolfAligned_def int64_def mkGame_def mkPlayer_def
  mkAction_def Let_def GameOngoing_def WerewolfWin_def VillagerWin_def LoversWin_def
  WhiteWolfWin_def

subsection \<open>The witch's potions\<close>

text \<open>
  Whatever the session and its ledger hold, \<^verbatim>\<open>UseWitchSkill\<close> never answers that a potion
  was already used, and it never writes the ledger of the session.
\<close>

lemma UseWitchSkill_never_already_used:
  "fst (UseWitchSkill g w t k) \<noteq> Some ErrSaveUsed \<and>
   fst (UseWitchSkill g w t k) \<noteq> Some ErrPoisonUsed \<and>
   Skills (snd (UseWitchSkill g w t k)) = Skills g"
  by (simp add: UseWitchSkill_def getWitchSkills_def Let_def split: option.splits)

text \<open>
  C2 at a concrete session: the witch W uses the save potion on T twice in a row. Both
  calls succeed and the log ends with two save actions, where the second call should
  have been refused as already used; the ledger of the session still has the save potion
  of W unused.
\<close>

theorem UseWitchSkill_second_save_accepted:
  "fst (UseWitchSkill witch_game ''W'' ''T'' ''save'') = None \<and>
   fst (UseWitchSkill (snd (UseWitchSkill witch_game ''W'' ''T'' ''save''))
          ''W'' ''T'' ''save'') = None \<and>
   Actions (snd (UseWitchSkill (snd (UseWitchSkill witch_game ''W'' ''T'' ''save''))
                   ''W'' ''T'' ''save''))
     = [mkAction ''save'' ''W'' ''T'', mkAction ''save'' ''W'' ''T''] \<and>
   Skills (snd (UseWitchSkill (snd (UseWitchSkill witch_game ''W'' ''T'' ''save''))
                   ''W'' ''T'' ''save'')) ''W''
     = Some unusedSkills"
  by (simp add: UseWitchSkill_def getWitchSkills_def findPlayer_def witch_game_def mkGame_def
        mkPlayer_def mkAction_def Let_def)

subsection \<open>After a win has been declared\<close>

lemma village_vote_step:
  "TransitionPhase [''X'', ''P''] village_vote =
     (Some ErrVillagerWin,
      \<lparr>game = mkGame
         [mkPlayer ''X'' Werewolf False False, mkPlayer ''P'' Villager True False,
          mkPlayer ''Q'' Villager True False] PhaseNight 2 [],
       status = VillagerWin\<rparr>)"
  by (simp add: village_vote_def eval_defs)

lemma village_won_step:
  "TransitionPhase order
      \<lparr>game = mkGame
         [mkPlayer ''X'' Werewolf False False, mkPlayer ''P'' Villager True False,
          mkPlayer ''Q'' Villager True False] PhaseNight 2 [],
       status = VillagerWin\<rparr> =
     (Some ErrVillagerWin,
      \<lparr>game = mkGame
         [mkPlayer ''X'' Werewolf False False, mkPlayer ''P'' Villager True False,
          mkPlayer ''Q'' Villager True False] PhaseDay 2 [],
       status = VillagerWin\<rparr>)"
  by (simp add: eval_defs)

lemma wolf_vote_step:
  "TransitionPhase [''X'', ''P''] wolf_vote =
     (Some ErrWerewolfWin,
      \<lparr>game = mkGame
         [mkPlayer ''X'' Werewolf True False, mkPlayer ''P'' Villager False False,
          mkPlayer ''Q'' Villager True False] PhaseNight 2 [],
       status = WerewolfWin\<rparr>)"
  by (simp add: wolf_vote_def eval_defs)

lemma wolf_won_action:
  "ProcessAction restart order now
      \<lparr>game = mkGame
         [mkPlayer ''X'' Werewolf True False, mkPlayer ''P'' Villager False False,
          mkPlayer ''Q'' Villager True False] PhaseNight 2 [],
       status = WerewolfWin\<rparr> (mkAction ''kill'' ''X'' ''Q'') =
     (Some ErrWerewolfWin,
      \<lparr>game = mkGame
         [mkPlayer ''X'' Werewolf True False, mkPlayer ''P'' Villager False False,
          mkPlayer ''Q'' Villager False False] PhaseDay 2 [],
       status = WerewolfWin\<rparr>)"
  by (simp add: ProcessAction_def AddAction_def isValidAction_def targetValid_def
        endCurrentPhase_def eval_defs)

text \<open>
  The message of a win is a sentence, never one of the outcome constants, so the
  comparisons in \<^verbatim>\<open>endCurrentPhase\<close> and in \<^verbatim>\<open>GameManager.ProcessAction\<close> that are meant
  to recognise the end of the game are false for every error.
\<close>

lemma Error_never_outcome: "Error err \<noteq> VillagerWin \<and> Error err \<noteq> WerewolfWin"
  by (cases err) (simp_all add: VillagerWin_def WerewolfWin_def)

text \<open>
  C9 at two concrete sessions. The vote of \<open>village_vote\<close> eliminates the last werewolf and
  the village win is declared; the next \<^verbatim>\<open>TransitionPhase\<close> is accepted all the same and
  moves the phase from night to day. The vote of \<open>wolf_vote\<close> gives the wolves parity and
  the wolf win is declared; a kill submitted afterwards through \<^verbatim>\<open>ProcessAction\<close> is
  accepted, marks Q dead and moves the phase on to day.
\<close>

theorem terminal_state_not_inert:
  "map_order (tally (Actions (game village_vote))) [''X'', ''P''] \<and>
   map_order (tally (Actions (game wolf_vote))) [''X'', ''P''] \<and>
   fst (TransitionPhase [''X'', ''P''] village_vote) = Some ErrVillagerWin \<and>
   status (snd (TransitionPhase [''X'', ''P''] village_vote)) = VillagerWin \<and>
   IsStarted (game (snd (TransitionPhase [''X'', ''P''] village_vote))) \<and>
   Phase (game (snd (TransitionPhase [''X'', ''P''] village_vote))) = PhaseNight \<and>
   Phase (game (snd (TransitionPhase order
                       (snd (TransitionPhase [''X'', ''P''] village_vote))))) = PhaseDay \<and>
   fst (TransitionPhase [''X'', ''P''] wolf_vote) = Some ErrWerewolfWin \<and>
   status (snd (TransitionPhase [''X'', ''P''] wolf_vote)) = WerewolfWin \<and>
   map Alive (Players (game (snd (TransitionPhase [''X'', ''P''] wolf_vote)))) =
     [True, False, True] \<and>
   map Alive (Players (game (snd (ProcessAction restart order now
                (snd (TransitionPhase [''X'', ''P''] wolf_vote))
                (mkAction ''kill'' ''X'' ''Q''))))) = [True, False, False] \<and>
   Phase (game (snd (ProcessAction restart order now
                (snd (TransitionPhase [''X'', ''P''] wolf_vote))
                (mkAction ''kill'' ''X'' ''Q'')))) = PhaseDay"
proof -
  have "map_order (tally (Actions (game village_vote))) [''X'', ''P'']"
    and "map_order (tally (Actions (game wolf_vote))) [''X'', ''P'']"
    by (auto simp: map_order_def dom_tally village_vote_def wolf_vote_def mkGame_def
          mkAction_def votesFor_def split: if_splits)
  then show ?thesis
    by (simp add: village_vote_step village_won_step wolf_vote_step wolf_won_action)
       (simp add: mkGame_def mkPlayer_def)
qed

subsection \<open>Win conditions\<close>

lemma length_filter_split:
  "length (filter P xs) =
     length (filter (\<lambda>x. P x \<and> \<not> Q x) xs) + length (filter (\<lambda>x. P x \<and> Q x) xs)"
  by (induction xs) auto

lemma alive_count_split:
  "length (filter Alive (Players g)) = villagerCount g + werewolfCount g"
  unfolding villagerCount_def werewolfCount_def by (rule length_filter_split)

lemma outcome_constants_distinct:
  "LoversWin \<noteq> WerewolfWin" "WhiteWolfWin \<noteq> WerewolfWin" "VillagerWin \<noteq> WerewolfWin"
  "GameOngoing \<noteq> WerewolfWin" "LoversWin \<noteq> VillagerWin" "WhiteWolfWin \<noteq> VillagerWin"
  "WerewolfWin \<noteq> VillagerWin" "GameOngoing \<noteq> VillagerWin"
  by (simp_all add: LoversWin_def WerewolfWin_def WhiteWolfWin_def VillagerWin_def GameOngoing_def)

text \<open>
  C4. \<^verbatim>\<open>checkGameEnd\<close> tests the win conditions in a fixed order, the lovers first. When
  exactly two participants are alive and both are lovers, the outcome is the lover win,
  whatever the faction counts are (so also at wolf parity). A village win is declared only
  with no living wolf-aligned participant. The wolf win is the last of the tests: it is
  declared exactly when the living wolf-aligned count is at least the living
  village-aligned count and none of the tests before it (lovers, awakened wolf alone, no
  wolf left) has decided the outcome.
\<close>

theorem checkGameEnd_precedence:
  "(length (filter Alive (Players (game sm))) = 2 \<and> loversAlive (game sm) = 2 \<longrightarrow>
      fst (checkGameEnd sm) = Some ErrLoversWin \<and> status (snd (checkGameEnd sm)) = LoversWin) \<and>
   (status (snd (checkGameEnd sm)) = VillagerWin \<longrightarrow> werewolfCount (game sm) = 0) \<and>
   (status (snd (checkGameEnd sm)) = WerewolfWin \<longleftrightarrow>
      villagerCount (game sm) \<le> werewolfCount (game sm) \<and>
      \<not> (loversAlive (game sm) = 2 \<and> length (filter Alive (Players (game sm))) = 2) \<and>
      \<not> (whiteWolfCount (game sm) = 1 \<and> werewolfCount (game sm) = 1 \<and>
         villagerCount (game sm) = 0) \<and>
      werewolfCount (game sm) \<noteq> 0)"
proof -
  let ?g = "game sm"
  have lovers: "fst (checkGameEnd sm) = Some ErrLoversWin \<and>
                status (snd (checkGameEnd sm)) = LoversWin"
    if "length (filter Alive (Players ?g)) = 2" and "loversAlive ?g = 2"
    using that by (simp add: checkGameEnd_def Let_def alive_count_split)
  have village: "werewolfCount ?g = 0" if "status (snd (checkGameEnd sm)) = VillagerWin"
    using that
    by (simp add: checkGameEnd_def Let_def outcome_constants_distinct split: if_splits)
  have wolf: "status (snd (checkGameEnd sm)) = WerewolfWin \<longleftrightarrow>
      villagerCount ?g \<le> werewolfCount ?g \<and>
      \<not> (loversAlive ?g = 2 \<and> length (filter Alive (Players ?g)) = 2) \<and>
      \<not> (whiteWolfCount ?g = 1 \<and> werewolfCount ?g = 1 \<and> villagerCount ?g = 0) \<and>
      werewolfCount ?g \<noteq> 0"
    by (auto simp: checkGameEnd_def Let_def alive_count_split outcome_constants_distinct)
  from lovers village wolf show ?thesis by blast
qed

text \<open>
  The theorem at the roster of \<open>lovers_end\<close>: two survivors, both lovers, one werewolf and
  one villager, so the wolves have parity; the outcome is the lover win.
\<close>

theorem checkGameEnd_precedence_witness:
  "length (filter Alive (Players (game lovers_end))) = 2 \<and>
   loversAlive (game lovers_end) = 2 \<and>
   villagerCount (game lovers_end) \<le> werewolfCount (game lovers_end) \<and>
   werewolfCount (game lovers_end) \<noteq> 0 \<and>
   fst (checkGameEnd lovers_end) = Some ErrLoversWin \<and>
   status (snd (checkGameEnd lovers_end)) = LoversWin \<and>
   status (snd (checkGameEnd lovers_end)) \<noteq> WerewolfWin"
proof -
  have counts: "length (filter Alive (Players (game lovers_end))) = 2"
    "loversAlive (game lovers_end) = 2"
    "villagerCount (game lovers_end) = 1" "werewolfCount (game lovers_end) = 1"
    by (simp_all add: lovers_end_def mkGame_def mkPlayer_def loversAlive_def villagerCount_def
          werewolfCount_def wolfAligned_def)
  with checkGameEnd_precedence[of lovers_end] show ?thesis
    by (simp add: outcome_constants_distinct)
qed

subsection \<open>Submission of actions\<close>

lemma AddAction_cases:
  "AddAction now gs a =
     (if fst (AddAction now gs a) = None
      then (None, gs\<lparr>Actions := Actions gs @ [a\<lparr>Timestamp := now\<rparr>]\<rparr>)
      else (fst (AddAction now gs a), gs))"
  by (simp add: AddAction_def)

lemma AddAction_accepts_iff:
  "fst (AddAction now gs a) = None \<longleftrightarrow>
     IsStarted gs \<and> isValidAction gs a \<and> (TargetID a = [] \<or> targetValid gs a)"
  by (simp add: AddAction_def)

text \<open>
  C7. In a started session in the night phase, take a kill action that names a target, and
  let \<open>t\<close> be the participant the target check finds: the first living roster entry with
  the target's identifier. If \<open>t\<close> is wolf-aligned the action is rejected and the session
  is unchanged, so nothing is appended; the error is the invalid-target error whenever the
  action has passed the role and phase validation that precedes the target check (the
  actor is a living wolf). If \<open>t\<close> is not wolf-aligned the target check passes, and a
  valid action is appended.
\<close>

theorem AddAction_kill_target:
  assumes "IsStarted gs" and "Phase gs = PhaseNight" and "AType a = ''kill''"
    and "TargetID a \<noteq> []"
    and "find (\<lambda>p. ID p = TargetID a \<and> Alive p) (Players gs) = Some t"
  shows "(wolfAligned t \<longrightarrow>
            fst (AddAction now gs a) \<noteq> None \<and> snd (AddAction now gs a) = gs \<and>
            (isValidAction gs a \<longrightarrow> fst (AddAction now gs a) = Some ErrInvalidTarget)) \<and>
         (\<not> wolfAligned t \<longrightarrow>
            targetValid gs a \<and>
            (isValidAction gs a \<longrightarrow>
               AddAction now gs a =
                 (None, gs\<lparr>Actions := Actions gs @ [a\<lparr>Timestamp := now\<rparr>]\<rparr>)))"
  using assms by (simp add: AddAction_def targetValid_def wolfAligned_def)

text \<open>
  The theorem at \<open>night_game\<close>: the werewolf X may not kill the awakened wolf Y, and may
  kill the villager P.
\<close>

theorem AddAction_kill_target_witness:
  "IsStarted night_game \<and> Phase night_game = PhaseNight \<and>
   find (\<lambda>p. ID p = ''Y'' \<and> Alive p) (Players night_game) = Some (mkPlayer ''Y'' WhiteWolf True False) \<and>
   wolfAligned (mkPlayer ''Y'' WhiteWolf True False) \<and>
   isValidAction night_game (mkAction ''kill'' ''X'' ''Y'') \<and>
   AddAction 7 night_game (mkAction ''kill'' ''X'' ''Y'') = (Some ErrInvalidTarget, night_game) \<and>
   find (\<lambda>p. ID p = ''P'' \<and> Alive p) (Players night_game) = Some (mkPlayer ''P'' Villager True False) \<and>
   \<not> wolfAligned (mkPlayer ''P'' Villager True False) \<and>
   isValidAction night_game (mkAction ''kill'' ''X'' ''P'') \<and>
   Actions (snd (AddAction 7 night_game (mkAction ''kill'' ''X'' ''P''))) =
     [(mkAction ''kill'' ''X'' ''P'')\<lparr>Timestamp := 7\<rparr>]"
proof -
  have st: "IsStarted night_game" "Phase night_game = PhaseNight" "Actions night_game = []"
    by (simp_all add: night_game_def mkGame_def)
  have k: "AType (mkAction ''kill'' ''X'' ''Y'') = ''kill''"
    "TargetID (mkAction ''kill'' ''X'' ''Y'') \<noteq> []" "TargetID (mkAction ''kill'' ''X'' ''Y'') = ''Y''"
    "AType (mkAction ''kill'' ''X'' ''P'') = ''kill''"
    "TargetID (mkAction ''kill'' ''X'' ''P'') \<noteq> []" "TargetID (mkAction ''kill'' ''X'' ''P'') = ''P''"
    by (simp_all add: mkAction_def)
  have fy: "find (\<lambda>p. ID p = ''Y'' \<and> Alive p) (Players night_game)
              = Some (mkPlayer ''Y'' WhiteWolf True False)"
    and fp: "find (\<lambda>p. ID p = ''P'' \<and> Alive p) (Players night_game)
              = Some (mkPlayer ''P'' Villager True False)"
    by (simp_all add: night_game_def mkGame_def mkPlayer_def)
  have wy: "wolfAligned (mkPlayer ''Y'' WhiteWolf True False)"
    and wp: "\<not> wolfAligned (mkPlayer ''P'' Villager True False)"
    by (simp_all add: wolfAligned_def mkPlayer_def)
  have v: "isValidAction night_game (mkAction ''kill'' ''X'' ''Y'')"
    "isValidAction night_game (mkAction ''kill'' ''X'' ''P'')"
    by (simp_all add: isValidAction_def night_game_def mkGame_def mkPlayer_def mkAction_def)
  have y: "fst (AddAction 7 night_game (mkAction ''kill'' ''X'' ''Y'')) = Some ErrInvalidTarget"
    "snd (AddAction 7 night_game (mkAction ''kill'' ''X'' ''Y'')) = night_game"
    using AddAction_kill_target[OF st(1) st(2) k(1) k(2), of "mkPlayer ''Y'' WhiteWolf True False" 7]
      fy wy v(1) k(3) by simp_all
  have p: "AddAction 7 night_game (mkAction ''kill'' ''X'' ''P'') =
             (None, night_game\<lparr>Actions := Actions night_game @
                [(mkAction ''kill'' ''X'' ''P'')\<lparr>Timestamp := 7\<rparr>]\<rparr>)"
    using AddAction_kill_target[OF st(1) st(2) k(4) k(5), of "mkPlayer ''P'' Villager True False" 7]
      fp wp v(2) k(6) by simp
  from y have "AddAction 7 night_game (mkAction ''kill'' ''X'' ''Y'') = (Some ErrInvalidTarget, night_game)"
    by (simp add: prod_eq_iff)
  with st fy fp wy wp v p show ?thesis by simp
qed

text \<open>
  C10. \<^verbatim>\<open>GameController.ProcessAction\<close> first looks for a roster entry whose identifier is
  the action's target. When there is none it returns the invalid-target error and leaves
  the session as it was, whatever the action, the phase and the started flag are: no role
  or phase validation has run yet. An action with an empty target identifier therefore is
  always rejected and never appended in a roster without an empty identifier; this
  includes a discuss action, whose target \<^verbatim>\<open>AddAction\<close> would not ask for.
\<close>

theorem ProcessAction_unknown_target:
  assumes "\<forall>p\<in>set (Players (game gc)). ID p \<noteq> TargetID a"
  shows "ProcessAction restart order now gc a = (Some ErrInvalidTarget, gc)"
  using assms by (simp add: ProcessAction_def list_ex_iff)

text \<open>
  The theorem at a discuss action without target in the day phase of \<open>day_game\<close>:
  \<^verbatim>\<open>AddAction\<close> alone accepts the action, the controller rejects it.
\<close>

theorem ProcessAction_unknown_target_witness:
  "map ID (Players day_game) = [''X'', ''Y'', ''P'', ''S''] \<and>
   fst (AddAction 9 day_game (mkAction ''discuss'' ''P'' [])) = None \<and>
   ProcessAction id [] 9 \<lparr>game = day_game, status = GameOngoing\<rparr> (mkAction ''discuss'' ''P'' [])
     = (Some ErrInvalidTarget, \<lparr>game = day_game, status = GameOngoing\<rparr>)"
proof -
  have ids: "map ID (Players day_game) = [''X'', ''Y'', ''P'', ''S'']"
    by (simp add: day_game_def mkGame_def mkPlayer_def)
  have "\<forall>p\<in>set (Players (game \<lparr>game = day_game, status = GameOngoing\<rparr>)).
               ID p \<noteq> TargetID (mkAction ''discuss'' ''P'' [])"
    by (simp add: day_game_def mkGame_def mkPlayer_def mkAction_def)
  from ProcessAction_unknown_target[OF this, of id "[]" 9]
  have "ProcessAction id [] 9 \<lparr>game = day_game, status = GameOngoing\<rparr>
          (mkAction ''discuss'' ''P'' [])
        = (Some ErrInvalidTarget, \<lparr>game = day_game, status = GameOngoing\<rparr>)" .
  moreover have "fst (AddAction 9 day_game (mkAction ''discuss'' ''P'' [])) = None"
    by (simp add: AddAction_def isValidAction_def day_game_def mkGame_def mkPlayer_def
          mkAction_def)
  ultimately show ?thesis using ids by simp
qed

lemma processActionResult_frame:
  "Actions (processActionResult g a) = Actions g \<and> Phase (processActionResult g a) = Phase g \<and>
   Round (processActionResult g a) = Round g \<and> IsStarted (processActionResult g a) = IsStarted g \<and>
   TimeLeft (processActionResult g a) = TimeLeft g \<and> Skills (processActionResult g a) = Skills g"
  by (simp add: processActionResult_def)

text \<open>
  C8, as the code has it. \<^verbatim>\<open>AddAction\<close> changes nothing but the log, to which it appends
  the stamped action, and a rejected action leaves the session unchanged. The controller's
  \<^verbatim>\<open>ProcessAction\<close> returns an error and leaves the session unchanged when its own target
  check or \<^verbatim>\<open>AddAction\<close> rejects the action. Once \<^verbatim>\<open>AddAction\<close> has accepted it, the
  controller applies the action's result at once: when the phase is not complete after
  that, the session it leaves has the stamped action appended and the roster that
  \<^verbatim>\<open>processActionResult\<close> produces (a kill, a poison and a vote mark the target dead, a
  save marks it alive), with phase and round unchanged.
\<close>

theorem submission_effects:
  "snd (AddAction now gs a) =
     (if fst (AddAction now gs a) = None
      then gs\<lparr>Actions := Actions gs @ [a\<lparr>Timestamp := now\<rparr>]\<rparr> else gs) \<and>
   (\<not> list_ex (\<lambda>p. ID p = TargetID a) (Players (game gc)) \<or>
    fst (AddAction now (game gc) a) \<noteq> None \<longrightarrow>
      fst (ProcessAction restart order now gc a) \<noteq> None \<and>
      snd (ProcessAction restart order now gc a) = gc) \<and>
   (list_ex (\<lambda>p. ID p = TargetID a) (Players (game gc)) \<and>
    fst (AddAction now (game gc) a) = None \<and>
    \<not> isPhaseComplete (processActionResult (snd (AddAction now (game gc) a)) a) \<longrightarrow>
      ProcessAction restart order now gc a =
        (None, gc\<lparr>game := (game gc)
           \<lparr>Actions := Actions (game gc) @ [a\<lparr>Timestamp := now\<rparr>],
            Players :=
              (if AType a = ''kill'' \<or> AType a = ''poison'' \<or> AType a = ''vote''
               then setAlive (TargetID a) False (Players (game gc))
               else if AType a = ''save'' then setAlive (TargetID a) True (Players (game gc))
               else Players (game gc))\<rparr>\<rparr>))"
proof -
  have add: "snd (AddAction now gs a) =
     (if fst (AddAction now gs a) = None
      then gs\<lparr>Actions := Actions gs @ [a\<lparr>Timestamp := now\<rparr>]\<rparr> else gs)"
    by (simp add: AddAction_def)
  have rej: "fst (ProcessAction restart order now gc a) \<noteq> None \<and>
      snd (ProcessAction restart order now gc a) = gc"
    if "\<not> list_ex (\<lambda>p. ID p = TargetID a) (Players (game gc)) \<or>
        fst (AddAction now (game gc) a) \<noteq> None"
  proof (cases "list_ex (\<lambda>p. ID p = TargetID a) (Players (game gc))")
    case False
    then show ?thesis by (simp add: ProcessAction_def)
  next
    case True
    with that obtain e where e: "fst (AddAction now (game gc) a) = Some e" by auto
    have "AddAction now (game gc) a = (Some e, game gc)"
      using AddAction_cases[of now "game gc" a] e by simp
    with True e show ?thesis by (simp add: ProcessAction_def)
  qed
  have acc: "ProcessAction restart order now gc a =
        (None, gc\<lparr>game := (game gc)
           \<lparr>Actions := Actions (game gc) @ [a\<lparr>Timestamp := now\<rparr>],
            Players :=
              (if AType a = ''kill'' \<or> AType a = ''poison'' \<or> AType a = ''vote''
               then setAlive (TargetID a) False (Players (game gc))
               else if AType a = ''save'' then setAlive (TargetID a) True (Players (game gc))
               else Players (game gc))\<rparr>\<rparr>)"
    if t: "list_ex (\<lambda>p. ID p = TargetID a) (Players (game gc))"
      and ok: "fst (AddAction now (game gc) a) = None"
      and nc: "\<not> isPhaseComplete (processActionResult (snd (AddAction now (game gc) a)) a)"
  proof -
    let ?g1 = "(game gc)\<lparr>Actions := Actions (game gc) @ [a\<lparr>Timestamp := now\<rparr>]\<rparr>"
    have a1: "AddAction now (game gc) a = (None, ?g1)"
      using AddAction_cases[of now "game gc" a] ok by simp
    with nc have nc': "\<not> isPhaseComplete (processActionResult ?g1 a)" by simp
    have "ProcessAction restart order now gc a = (None, gc\<lparr>game := processActionResult ?g1 a\<rparr>)"
      using t a1 nc' by (simp add: ProcessAction_def Let_def)
    moreover have "processActionResult ?g1 a = (game gc)
           \<lparr>Actions := Actions (game gc) @ [a\<lparr>Timestamp := now\<rparr>],
            Players :=
              (if AType a = ''kill'' \<or> AType a = ''poison'' \<or> AType a = ''vote''
               then setAlive (TargetID a) False (Players (game gc))
               else if AType a = ''save'' then setAlive (TargetID a) True (Players (game gc))
               else Players (game gc))\<rparr>"
      by (simp add: processActionResult_def)
    ultimately show ?thesis by simp
  qed
  from add rej acc show ?thesis by blast
qed

text \<open>
  The theorem at \<open>night_game\<close>: the awakened wolf Y kills the villager P. The action passes
  both checks and the night is not complete afterwards (X and the seer have not acted):
  the controller returns with P dead, the kill in the log, the phase still night.
\<close>

theorem submission_effects_witness:
  "list_ex (\<lambda>p. ID p = TargetID (mkAction ''kill'' ''Y'' ''P'')) (Players night_game) \<and>
   fst (AddAction 3 night_game (mkAction ''kill'' ''Y'' ''P'')) = None \<and>
   \<not> isPhaseComplete (processActionResult
        (snd (AddAction 3 night_game (mkAction ''kill'' ''Y'' ''P''))) (mkAction ''kill'' ''Y'' ''P'')) \<and>
   ProcessAction id [] 3 \<lparr>game = night_game, status = GameOngoing\<rparr> (mkAction ''kill'' ''Y'' ''P'') =
     (None, \<lparr>game = mkGame
        [mkPlayer ''X'' Werewolf True False, mkPlayer ''Y'' WhiteWolf True False,
         mkPlayer ''P'' Villager False False, mkPlayer ''S'' Seer True False]
        PhaseNight 1 [(mkAction ''kill'' ''Y'' ''P'')\<lparr>Timestamp := 3\<rparr>],
       status = GameOngoing\<rparr>)"
proof -
  let ?a = "mkAction ''kill'' ''Y'' ''P''"
  let ?gc = "\<lparr>game = night_game, status = GameOngoing\<rparr>"
  have t: "list_ex (\<lambda>p. ID p = TargetID ?a) (Players (game ?gc))"
    by (simp add: night_game_def mkGame_def mkPlayer_def mkAction_def)
  have ok: "fst (AddAction 3 (game ?gc) ?a) = None"
    by (simp add: AddAction_def isValidAction_def targetValid_def night_game_def mkGame_def
          mkPlayer_def mkAction_def)
  have nc: "\<not> isPhaseComplete (processActionResult (snd (AddAction 3 (game ?gc) ?a)) ?a)"
    by (simp add: AddAction_def isValidAction_def targetValid_def night_game_def mkGame_def
          mkPlayer_def mkAction_def processActionResult_def isPhaseComplete_def
          checkNightActionsComplete_def hasActionOfType_def)
  from submission_effects[of 3 "game ?gc" ?a ?gc id "[]"] t ok nc
  have "ProcessAction id [] 3 ?gc ?a =
        (None, ?gc\<lparr>game := (game ?gc)
           \<lparr>Actions := Actions (game ?gc) @ [?a\<lparr>Timestamp := 3\<rparr>],
            Players :=
              (if AType ?a = ''kill'' \<or> AType ?a = ''poison'' \<or> AType ?a = ''vote''
               then setAlive (TargetID ?a) False (Players (game ?gc))
               else if AType ?a = ''save'' then setAlive (TargetID ?a) True (Players (game ?gc))
               else Players (game ?gc))\<rparr>\<rparr>)"
    by blast
  then have "ProcessAction id [] 3 ?gc ?a =
     (None, \<lparr>game = mkGame
        [mkPlayer ''X'' Werewolf True False, mkPlayer ''Y'' WhiteWolf True False,
         mkPlayer ''P'' Villager False False, mkPlayer ''S'' Seer True False]
        PhaseNight 1 [?a\<lparr>Timestamp := 3\<rparr>],
       status = GameOngoing\<rparr>)"
    by (simp add: night_game_def mkGame_def mkPlayer_def mkAction_def)
  with t ok nc show ?thesis by simp
qed

text \<open>
  C8 as stated fails in the controller: in \<open>night_game\<close> the werewolf X submits a kill of
  the villager P through \<^verbatim>\<open>ProcessAction\<close>. The call succeeds, the night is not complete
  and the phase is still night, yet P is dead as soon as the call returns.
\<close>

theorem submission_kills_at_once_counterexample:
  "fst (ProcessAction id [] 5 \<lparr>game = night_game, status = GameOngoing\<rparr>
          (mkAction ''kill'' ''X'' ''P'')) = None \<and>
   map Alive (Players night_game) = [True, True, True, True] \<and>
   map Alive (Players (game (snd (ProcessAction id [] 5 \<lparr>game = night_game, status = GameOngoing\<rparr>
          (mkAction ''kill'' ''X'' ''P''))))) = [True, True, False, True] \<and>
   Phase (game (snd (ProcessAction id [] 5 \<lparr>game = night_game, status = GameOngoing\<rparr>
          (mkAction ''kill'' ''X'' ''P'')))) = PhaseNight \<and>
   \<not> isPhaseComplete (game (snd (ProcessAction id [] 5 \<lparr>game = night_game, status = GameOngoing\<rparr>
          (mkAction ''kill'' ''X'' ''P''))))"
  by (simp add: ProcessAction_def AddAction_def isValidAction_def targetValid_def night_game_def
        mkGame_def mkPlayer_def mkAction_def processActionResult_def isPhaseComplete_def
        checkNightActionsComplete_def hasActionOfType_def Let_def)

subsection \<open>Duplicate actions\<close>

lemma hasActionOfType_duplicate:
  assumes "\<exists>b\<in>set (Actions gs). PlayerID b = PlayerID a \<and> AType b = AType a"
    and "PlayerID a' = PlayerID a" and "AType a' = AType a"
  shows "hasActionOfType (gs\<lparr>Actions := Actions gs @ [a']\<rparr>) p k = hasActionOfType gs p k"
  using assms by (auto simp: hasActionOfType_def list_ex_iff)

lemma isPhaseComplete_duplicate:
  assumes "\<exists>b\<in>set (Actions gs). PlayerID b = PlayerID a \<and> AType b = AType a"
    and "PlayerID a' = PlayerID a" and "AType a' = AType a"
  shows "isPhaseComplete (gs\<lparr>Actions := Actions gs @ [a']\<rparr>) = isPhaseComplete gs"
  by (simp add: isPhaseComplete_def checkNightActionsComplete_def checkVoteComplete_def
        hasActionOfType_duplicate[OF assms] cong: role.case_cong phase.case_cong)

lemma votesFor_snoc:
  "votesFor (acts @ [b]) t = votesFor acts t + (if AType b = ''vote'' \<and> TargetID b = t then 1 else 0)"
  by (simp add: votesFor_def)

text \<open>
  C5, as the code has it. The log is not deduplicated. Whether \<^verbatim>\<open>AddAction\<close> accepts an
  action does not depend on the log, so an action of a kind the participant already has
  in the log is accepted like the first one; an accepted call appends the stamped action
  exactly once. When the participant already has an action of that kind in the log, the
  completeness check gives the same answer with and without the new one (it only asks
  whether such an action exists). The tally counts every vote action of the log: a further
  vote for a target raises that target's count by one, duplicate or not.
\<close>

theorem duplicates_kept_and_counted:
  "fst (AddAction now (gs\<lparr>Actions := acts\<rparr>) a) = fst (AddAction now gs a) \<and>
   (fst (AddAction now gs a) = None \<longrightarrow>
      Actions (snd (AddAction now gs a)) = Actions gs @ [a\<lparr>Timestamp := now\<rparr>]) \<and>
   ((\<exists>b\<in>set (Actions gs). PlayerID b = PlayerID a \<and> AType b = AType a) \<longrightarrow>
      isPhaseComplete (gs\<lparr>Actions := Actions gs @ [a\<lparr>Timestamp := now\<rparr>]\<rparr>) = isPhaseComplete gs) \<and>
   (AType a = ''vote'' \<longrightarrow>
      tally (Actions gs @ [a\<lparr>Timestamp := now\<rparr>]) (TargetID a) =
        Some (int (votesFor (Actions gs) (TargetID a)) + 1))"
proof -
  have indep: "fst (AddAction now (gs\<lparr>Actions := acts\<rparr>) a) = fst (AddAction now gs a)"
    by (simp add: AddAction_def isValidAction_def targetValid_def cong: option.case_cong)
  have once: "Actions (snd (AddAction now gs a)) = Actions gs @ [a\<lparr>Timestamp := now\<rparr>]"
    if "fst (AddAction now gs a) = None"
    using that AddAction_cases[of now gs a] by simp
  have compl: "isPhaseComplete (gs\<lparr>Actions := Actions gs @ [a\<lparr>Timestamp := now\<rparr>]\<rparr>) =
                 isPhaseComplete gs"
    if "\<exists>b\<in>set (Actions gs). PlayerID b = PlayerID a \<and> AType b = AType a"
    using that by (intro isPhaseComplete_duplicate) simp_all
  have count: "tally (Actions gs @ [a\<lparr>Timestamp := now\<rparr>]) (TargetID a) =
        Some (int (votesFor (Actions gs) (TargetID a)) + 1)"
    if "AType a = ''vote''"
    using that by (simp add: tally_votesFor votesFor_snoc)
  from indep once compl count show ?thesis by blast
qed

text \<open>
  The theorem at \<open>voted_once\<close>, where P has already voted for X and votes for X again: the
  second vote is accepted and appended, the vote is as incomplete as before, and X now
  has two votes.
\<close>

theorem duplicates_kept_and_counted_witness:
  "list_ex (\<lambda>b. PlayerID b = ''P'' \<and> AType b = ''vote'') (Actions voted_once) \<and>
   fst (AddAction 8 voted_once (mkAction ''vote'' ''P'' ''X'')) = None \<and>
   Actions (snd (AddAction 8 voted_once (mkAction ''vote'' ''P'' ''X''))) =
     [mkAction ''vote'' ''P'' ''X'', (mkAction ''vote'' ''P'' ''X'')\<lparr>Timestamp := 8\<rparr>] \<and>
   isPhaseComplete (snd (AddAction 8 voted_once (mkAction ''vote'' ''P'' ''X''))) =
     isPhaseComplete voted_once \<and>
   tally (Actions (snd (AddAction 8 voted_once (mkAction ''vote'' ''P'' ''X''))))  ''X'' = Some 2"
proof -
  let ?a = "mkAction ''vote'' ''P'' ''X''"
  have acts: "Actions voted_once = [?a]"
    by (simp add: voted_once_def mkGame_def)
  have a: "AType ?a = ''vote''" "PlayerID ?a = ''P''" "TargetID ?a = ''X''"
    by (simp_all add: mkAction_def)
  have dup: "\<exists>b\<in>set (Actions voted_once). PlayerID b = PlayerID ?a \<and> AType b = AType ?a"
    by (simp add: acts)
  have ok: "fst (AddAction 8 voted_once ?a) = None"
    by (simp add: AddAction_def isValidAction_def targetValid_def voted_once_def mkGame_def
          mkPlayer_def mkAction_def)
  have v: "votesFor (Actions voted_once) ''X'' = 1"
    by (simp add: acts votesFor_def a)
  from duplicates_kept_and_counted[where now = 8 and gs = voted_once and a = ?a] dup ok a v
  have "Actions (snd (AddAction 8 voted_once ?a)) = Actions voted_once @ [?a\<lparr>Timestamp := 8\<rparr>]"
    and "isPhaseComplete (voted_once\<lparr>Actions := Actions voted_once @ [?a\<lparr>Timestamp := 8\<rparr>]\<rparr>) =
           isPhaseComplete voted_once"
    and "tally (Actions voted_once @ [?a\<lparr>Timestamp := 8\<rparr>]) ''X'' = Some 2"
    by simp_all
  moreover have "snd (AddAction 8 voted_once ?a) =
                   voted_once\<lparr>Actions := Actions voted_once @ [?a\<lparr>Timestamp := 8\<rparr>]\<rparr>"
    using AddAction_cases[of 8 voted_once ?a] ok by simp
  ultimately show ?thesis using ok acts a by simp
qed

text \<open>
  C5 as stated fails: in \<open>open_vote\<close> the participant P submits the same vote for X twice.
  Both submissions are accepted, the log then holds two vote actions of P, and the tally
  gives X two votes.
\<close>

theorem duplicate_vote_counted_counterexample:
  "fst (AddAction 1 open_vote (mkAction ''vote'' ''P'' ''X'')) = None \<and>
   fst (AddAction 2 (snd (AddAction 1 open_vote (mkAction ''vote'' ''P'' ''X'')))
          (mkAction ''vote'' ''P'' ''X'')) = None \<and>
   Actions (snd (AddAction 2 (snd (AddAction 1 open_vote (mkAction ''vote'' ''P'' ''X'')))
          (mkAction ''vote'' ''P'' ''X''))) =
     [(mkAction ''vote'' ''P'' ''X'')\<lparr>Timestamp := 1\<rparr>,
      (mkAction ''vote'' ''P'' ''X'')\<lparr>Timestamp := 2\<rparr>] \<and>
   tally (Actions (snd (AddAction 2 (snd (AddAction 1 open_vote (mkAction ''vote'' ''P'' ''X'')))
          (mkAction ''vote'' ''P'' ''X'')))) ''X'' = Some 2"
  by (simp add: AddAction_def isValidAction_def targetValid_def open_vote_def mkGame_def
        mkPlayer_def mkAction_def tally_def)

text \<open>
  \<^verbatim>\<open>GameManager.ProcessAction\<close> appends the action before the transition and once more
  after it. At the end of a day the transition does not clear the log, and one submitted
  discuss action is in the log twice; the call has also advanced the phase twice.
\<close>

lemma GameManager_ProcessAction_appends_twice:
  "GameManager_ProcessAction order (Some day_over) (mkAction ''discuss'' ''P'' []) =
     (None, Some (mkGame
        [mkPlayer ''X'' Werewolf True False, mkPlayer ''P'' Villager True False,
         mkPlayer ''Q'' Villager True False, mkPlayer ''R'' Villager True False]
        PhaseNight 2 [mkAction ''discuss'' ''P'' [], mkAction ''discuss'' ''P'' []]))"
  by (simp add: GameManager_ProcessAction_def day_over_def isValidAction_def
        checkAndUpdatePhase_def eval_defs)

subsection \<open>Night resolution\<close>

lemma setAlive_absent: "t \<notin> ID ` set ps \<Longrightarrow> setAlive t b ps = ps"
  by (induction ps) auto

lemma setAlive_distinct:
  "distinct (map ID ps) \<Longrightarrow>
     setAlive t b ps = map (\<lambda>p. if ID p = t then p\<lparr>Alive := b\<rparr> else p) ps"
proof (induction ps)
  case Nil
  then show ?case by simp
next
  case (Cons p ps)
  show ?case
  proof (cases "ID p = t")
    case True
    with Cons.prems have "t \<notin> ID ` set ps" by auto
    then have "map (\<lambda>q. if ID q = t then q\<lparr>Alive := b\<rparr> else q) ps = ps"
      by (intro map_idI) auto
    with True show ?thesis by simp
  next
    case False
    with Cons show ?thesis by simp
  qed
qed

lemma map_ID_relabel:
  "(\<And>p. ID (f p) = ID p) \<Longrightarrow> map ID (map f ps) = map ID ps"
  by (induction ps) auto

lemma kill_pass:
  assumes d: "distinct (map ID (Players g))"
  shows "foldl (\<lambda>s a. if AType a = ''kill'' then processActionResult s a else s) g acts =
           g\<lparr>Players := map (\<lambda>p. if killed acts (ID p) then p\<lparr>Alive := False\<rparr> else p)
                            (Players g)\<rparr>"
proof (induction acts rule: rev_induct)
  case Nil
  show ?case by (simp add: killed_def)
next
  case (snoc x xs)
  let ?K = "\<lambda>p. if killed xs (ID p) then p\<lparr>Alive := False\<rparr> else p"
  have idk: "ID (?K p) = ID p" for p :: Player
    by simp
  have dk: "distinct (map ID (map ?K (Players g)))"
    using d by (simp only: map_ID_relabel[of ?K, OF idk])
  show ?case
  proof (cases "AType x = ''kill''")
    case True
    have pointwise: "(if ID (?K p) = TargetID x then (?K p)\<lparr>Alive := False\<rparr> else ?K p) =
                     (if killed (xs @ [x]) (ID p) then p\<lparr>Alive := False\<rparr> else p)"
      for p :: Player
      using True by (auto simp: killed_def)
    have "setAlive (TargetID x) False (map ?K (Players g)) =
            map (\<lambda>p. if killed (xs @ [x]) (ID p) then p\<lparr>Alive := False\<rparr> else p) (Players g)"
      by (simp only: setAlive_distinct[OF dk] map_map o_def pointwise)
    with True snoc show ?thesis by (simp add: processActionResult_def)
  next
    case False
    then have "killed (xs @ [x]) = killed xs" by (simp add: killed_def fun_eq_iff)
    with False snoc show ?thesis by simp
  qed
qed

lemma witch_pass:
  assumes d: "distinct (map ID (Players g))"
  shows "foldl (\<lambda>s a. if AType a = ''save'' \<or> AType a = ''poison''
                      then processActionResult s a else s) g acts =
           g\<lparr>Players := map (\<lambda>p. case rev (witchActs acts (ID p)) of
                                    [] \<Rightarrow> p
                                  | a # _ \<Rightarrow> p\<lparr>Alive := (AType a = ''save'')\<rparr>)
                            (Players g)\<rparr>"
proof (induction acts rule: rev_induct)
  case Nil
  show ?case by (simp add: witchActs_def)
next
  case (snoc x xs)
  let ?W = "\<lambda>acts p. case rev (witchActs acts (ID p)) of
                        [] \<Rightarrow> p | a # _ \<Rightarrow> p\<lparr>Alive := (AType a = ''save'')\<rparr>"
  have idw: "ID (?W xs p) = ID p" for p :: Player
    by (simp split: list.splits)
  have dw: "distinct (map ID (map (?W xs) (Players g)))"
    using d by (simp only: map_ID_relabel[of "?W xs", OF idw])
  show ?case
  proof (cases "AType x = ''save'' \<or> AType x = ''poison''")
    case True
    have pointwise: "(if ID (?W xs p) = TargetID x
                      then (?W xs p)\<lparr>Alive := (AType x = ''save'')\<rparr> else ?W xs p) =
                     ?W (xs @ [x]) p" for p :: Player
      using True by (auto simp: witchActs_def split: list.splits)
    have "setAlive (TargetID x) (AType x = ''save'') (map (?W xs) (Players g)) =
            map (?W (xs @ [x])) (Players g)"
      by (simp only: setAlive_distinct[OF dw] map_map o_def pointwise)
    with True snoc show ?thesis by (auto simp: processActionResult_def)
  next
    case False
    then have "witchActs (xs @ [x]) = witchActs xs" by (simp add: witchActs_def fun_eq_iff)
    with False snoc show ?thesis by simp
  qed
qed

text \<open>
  C3, as the code has it. With distinct identifiers in the roster,
  \<^verbatim>\<open>processNightResults\<close> empties the log and leaves every participant with the alive flag
  \<open>nightAlive\<close>: all kills are applied first, then the save and poison actions in
  submission order, so the last save or poison on a participant decides. A save marks its
  target alive unconditionally: it undoes a kill of this pass, and it equally sets alive
  a target that no kill of this pass names. A poison marks its target dead
  unconditionally. Nothing else of the session changes.
\<close>

theorem processNightResults_outcome:
  assumes "distinct (map ID (Players g))"
  shows "processNightResults g =
           g\<lparr>Players := map (\<lambda>p. p\<lparr>Alive := nightAlive (Actions g) p\<rparr>) (Players g),
             Actions := []\<rparr>"
proof -
  let ?K = "\<lambda>p. if killed (Actions g) (ID p) then p\<lparr>Alive := False\<rparr> else p"
  let ?W = "\<lambda>p. case rev (witchActs (Actions g) (ID p)) of
                   [] \<Rightarrow> p | a # _ \<Rightarrow> p\<lparr>Alive := (AType a = ''save'')\<rparr>"
  let ?g1 = "g\<lparr>Players := map ?K (Players g)\<rparr>"
  have k: "foldl (\<lambda>s a. if AType a = ''kill'' then processActionResult s a else s) g (Actions g)
             = ?g1"
    by (rule kill_pass[OF assms])
  have idk: "ID (?K p) = ID p" for p :: Player
    by simp
  have p1: "Players ?g1 = map ?K (Players g)"
    by simp
  have d1: "distinct (map ID (Players ?g1))"
    using assms by (simp only: p1 map_ID_relabel[of ?K, OF idk])
  have w: "foldl (\<lambda>s a. if AType a = ''save'' \<or> AType a = ''poison''
                        then processActionResult s a else s) ?g1 (Actions g)
             = ?g1\<lparr>Players := map ?W (Players ?g1)\<rparr>"
    by (rule witch_pass[OF d1])
  have pw: "?W (?K p) = p\<lparr>Alive := nightAlive (Actions g) p\<rparr>" for p :: Player
    by (cases p) (auto simp: nightAlive_def split: list.splits)
  have "map ?W (Players ?g1) = map (\<lambda>p. p\<lparr>Alive := nightAlive (Actions g) p\<rparr>) (Players g)"
    by (simp only: p1 map_map o_def pw)
  with k w show ?thesis by (simp add: processNightResults_def Let_def)
qed

text \<open>
  The theorem at \<open>witch_night\<close>: X kills P, the witch saves P and poisons Q. P is alive
  afterwards, Q is dead, and the log is empty.
\<close>

theorem processNightResults_outcome_witness:
  "distinct (map ID (Players witch_night)) \<and>
   map Alive (Players witch_night) = [True, True, True, True] \<and>
   map Alive (Players (processNightResults witch_night)) = [True, True, False, True] \<and>
   Actions (processNightResults witch_night) = []"
proof -
  have d: "distinct (map ID (Players witch_night))"
    by (simp add: witch_night_def mkGame_def mkPlayer_def)
  from processNightResults_outcome[OF d] d show ?thesis
    by (simp add: witch_night_def mkGame_def mkPlayer_def mkAction_def nightAlive_def
          witchActs_def killed_def)
qed

text \<open>
  C3 as stated fails on a save whose target no kill of the pass names. In \<open>late_night\<close> P
  has been dead since an earlier round. \<^verbatim>\<open>UseWitchSkill\<close> only asks that the target
  exists, so it records the witch's save on P; the log holds no kill; after
  \<^verbatim>\<open>processNightResults\<close> P is alive.
\<close>

theorem save_revives_counterexample:
  "map Alive (Players late_night) = [True, False, True, True] \<and>
   fst (UseWitchSkill late_night ''W'' ''P'' ''save'') = None \<and>
   Actions (snd (UseWitchSkill late_night ''W'' ''P'' ''save'')) = [mkAction ''save'' ''W'' ''P''] \<and>
   \<not> killed (Actions (snd (UseWitchSkill late_night ''W'' ''P'' ''save''))) ''P'' \<and>
   map Alive (Players (processNightResults (snd (UseWitchSkill late_night ''W'' ''P'' ''save''))))
     = [True, True, True, True]"
  by (simp add: UseWitchSkill_def getWitchSkills_def findPlayer_def late_night_def killed_def
        processNightResults_def processActionResult_def mkGame_def mkPlayer_def mkAction_def
        Let_def)

subsection \<open>Phase cycle and round counter\<close>

lemma int64_succ: "0 \<le> r \<Longrightarrow> r < 2 ^ 63 - 1 \<Longrightarrow> int64 (r + 1) = r + 1"
  by (simp add: int64_def)

lemma pass_frame:
  "Phase (foldl (\<lambda>s a. if P a then processActionResult s a else s) g acts) = Phase g \<and>
   Round (foldl (\<lambda>s a. if P a then processActionResult s a else s) g acts) = Round g \<and>
   Actions (foldl (\<lambda>s a. if P a then processActionResult s a else s) g acts) = Actions g"
  by (induction acts arbitrary: g) (simp_all add: processActionResult_frame)

lemma processNightResults_frame:
  "Phase (processNightResults g) = Phase g \<and> Round (processNightResults g) = Round g"
  by (simp add: processNightResults_def Let_def pass_frame)

lemma processVoteResults_frame:
  "Phase (processVoteResults order g) = Phase g \<and> Round (processVoteResults order g) = Round g"
  by (simp add: processVoteResults_def Let_def processActionResult_frame)

lemma checkGameEnd_game: "game (snd (checkGameEnd sm)) = game sm"
  by (simp add: checkGameEnd_def Let_def)

lemma TransitionPhase_cycle:
  assumes "0 \<le> Round (game sm)" and "Round (game sm) < 2 ^ 63 - 1"
  shows "cycle_step (game sm) (game (snd (TransitionPhase order sm)))"
proof (cases "IsStarted (game sm) \<and> isPhaseComplete (game sm)")
  case False
  then show ?thesis by (auto simp: TransitionPhase_def cycle_step_def)
next
  case True
  then show ?thesis
    using assms
    by (cases "Phase (game sm)")
       (simp_all add: TransitionPhase_def Let_def checkGameEnd_game cycle_step_def
          processNightResults_frame processVoteResults_frame int64_succ)
qed

lemma checkAndUpdatePhase_cycle:
  assumes "0 \<le> Round g" and "Round g < 2 ^ 63 - 1"
  shows "cycle_step g (checkAndUpdatePhase g)"
  using assms
  by (cases "Phase g") (simp_all add: checkAndUpdatePhase_def cycle_step_def int64_succ)

lemma AddAction_frame:
  "Phase (snd (AddAction now gs a)) = Phase gs \<and> Round (snd (AddAction now gs a)) = Round gs"
  by (simp add: AddAction_def)

lemma step_cycle:
  assumes "0 \<le> Round (game sm)" and "Round (game sm) < 2 ^ 63 - 1"
  shows "cycle_step (game sm) (game (step e sm))"
proof (cases e)
  case (EvTransition order)
  with TransitionPhase_cycle[OF assms] show ?thesis by simp
next
  case EvAdvance
  with checkAndUpdatePhase_cycle[OF assms] show ?thesis by simp
next
  case (EvSubmit now a)
  then show ?thesis by (simp add: cycle_step_def AddAction_frame)
next
  case (EvTime seconds)
  then show ?thesis by (simp add: cycle_step_def UpdateTimeLeft_def)
qed

lemma cycle_step_Round:
  "cycle_step g g' \<Longrightarrow> Round g \<le> Round g' \<and> Round g' \<le> Round g + 1"
  by (auto simp: cycle_step_def split: if_splits)

lemma run_snoc: "run (evs @ [e]) sm = step e (run evs sm)"
  by (simp add: run_def)

lemma run_Round:
  assumes "0 \<le> Round (game sm)"
  shows "Round (game sm) + int (length evs) < 2 ^ 63 \<Longrightarrow>
         Round (game sm) \<le> Round (game (run evs sm)) \<and>
         Round (game (run evs sm)) \<le> Round (game sm) + int (length evs)"
proof (induction evs rule: rev_induct)
  case Nil
  show ?case by (simp add: run_def)
next
  case (snoc e evs)
  from snoc.prems have "Round (game sm) + int (length evs) < 2 ^ 63" by simp
  from snoc.IH[OF this]
  have ih: "Round (game sm) \<le> Round (game (run evs sm))"
    "Round (game (run evs sm)) \<le> Round (game sm) + int (length evs)"
    by simp_all
  with assms snoc.prems
  have "0 \<le> Round (game (run evs sm))" and "Round (game (run evs sm)) < 2 ^ 63 - 1"
    by simp_all
  from cycle_step_Round[OF step_cycle[OF this, of e]] ih
  show ?case by (simp add: run_snoc)
qed

text \<open>
  C6. Take a session whose round counter is at least 1 (a started session begins at 1) and
  any sequence of events short enough for the 64-bit counter not to wrap. Every event
  either leaves phase and round as they are or moves the phase to its successor in the
  cycle night, day, vote, night, raising the round by exactly 1 when the move is from
  vote to night and leaving it unchanged on the two other moves; this holds for the
  transitions of the state machine and for \<^verbatim>\<open>checkAndUpdatePhase\<close>. Hence the round
  counter never decreases along the run.
\<close>

theorem round_and_phase_cycle:
  assumes "1 \<le> Round (game sm)" and "Round (game sm) + int (length evs) < 2 ^ 63"
  shows "(\<forall>i<length evs. cycle_step (game (run (take i evs) sm))
                                      (game (run (take (Suc i) evs) sm))) \<and>
         Round (game sm) \<le> Round (game (run evs sm))"
proof -
  from assms have r0: "0 \<le> Round (game sm)" by simp
  have one: "cycle_step (game (run (take i evs) sm)) (game (run (take (Suc i) evs) sm))"
    if i: "i < length evs" for i
  proof -
    from i assms have "Round (game sm) + int (length (take i evs)) < 2 ^ 63" by simp
    from run_Round[OF r0 this] i assms
    have "0 \<le> Round (game (run (take i evs) sm))"
      and "Round (game (run (take i evs) sm)) < 2 ^ 63 - 1"
      by simp_all
    from step_cycle[OF this, of "evs ! i"] i show ?thesis
      by (simp add: take_Suc_conv_app_nth run_snoc)
  qed
  from one run_Round[OF r0 assms(2)] show ?thesis by simp
qed

lemma cycle_run_first:
  "run (take (Suc 0) cycle_events) cycle_start =
     \<lparr>game = mkGame
        [mkPlayer ''X'' Werewolf True False, mkPlayer ''P'' Villager False False,
         mkPlayer ''Q'' Villager True False, mkPlayer ''R'' Villager True False]
        PhaseNight 2 [],
      status = GameOngoing\<rparr>"
  by (simp add: run_def cycle_events_def cycle_start_def eval_defs)

lemma cycle_run_last:
  "run cycle_events cycle_start =
     \<lparr>game = mkGame
        [mkPlayer ''X'' Werewolf True False, mkPlayer ''P'' Villager False False,
         mkPlayer ''Q'' Villager False False, mkPlayer ''R'' Villager True False]
        PhaseVote 2 [],
      status = WerewolfWin\<rparr>"
  by (simp add: run_def cycle_events_def cycle_start_def AddAction_def isValidAction_def
        targetValid_def UpdateTimeLeft_def eval_defs)

text \<open>
  The theorem at the run \<open>cycle_events\<close> from \<open>cycle_start\<close>: its first event is the
  transition from vote to night, after which the round is 2; the run ends in the vote
  phase of round 2.
\<close>

theorem round_and_phase_cycle_witness:
  "1 \<le> Round (game cycle_start) \<and>
   Round (game cycle_start) + int (length cycle_events) < 2 ^ 63 \<and>
   Phase (game cycle_start) = PhaseVote \<and> Round (game cycle_start) = 1 \<and>
   Phase (game (run (take (Suc 0) cycle_events) cycle_start)) = PhaseNight \<and>
   Round (game (run (take (Suc 0) cycle_events) cycle_start)) = 2 \<and>
   Phase (game (run cycle_events cycle_start)) = PhaseVote \<and>
   Round (game (run cycle_events cycle_start)) = 2 \<and>
   cycle_step (game (run (take 0 cycle_events) cycle_start))
              (game (run (take (Suc 0) cycle_events) cycle_start)) \<and>
   Round (game cycle_start) \<le> Round (game (run cycle_events cycle_start))"
proof -
  have r: "1 \<le> Round (game cycle_start)" "Round (game cycle_start) = 1"
    "Phase (game cycle_start) = PhaseVote"
    by (simp_all add: cycle_start_def mkGame_def)
  have l: "Round (game cycle_start) + int (length cycle_events) < 2 ^ 63"
    "0 < length cycle_events"
    by (simp_all add: cycle_start_def mkGame_def cycle_events_def)
  have s: "Phase (game (run (take (Suc 0) cycle_events) cycle_start)) = PhaseNight"
    "Round (game (run (take (Suc 0) cycle_events) cycle_start)) = 2"
    "Phase (game (run cycle_events cycle_start)) = PhaseVote"
    "Round (game (run cycle_events cycle_start)) = 2"
    by (simp_all add: cycle_run_first cycle_run_last mkGame_def)
  from round_and_phase_cycle[OF r(1) l(1)] l(2)
  have c: "cycle_step (game (run (take 0 cycle_events) cycle_start))
              (game (run (take (Suc 0) cycle_events) cycle_start))"
    "Round (game cycle_start) \<le> Round (game (run cycle_events cycle_start))"
    by blast+
  from r(1) l(1) r(3) r(2) s c show ?thesis by (intro conjI)
qed

end
